theory Spec2Isabelle
  imports Complex_Main "HOL-Library.Word" "HOL-Library.AList" "HOL-Library.Sublist"
begin

section \<open>Go values\<close>

text \<open>
  The handlers of \<^verbatim>\<open>handler.go\<close> (the fuller of the two variants in that file) and the
  configuration check of \<^verbatim>\<open>config.go\<close>, as HOL functions. Go's \<^verbatim>\<open>int\<close> is a 64-bit
  two's complement word; \<open>+\<close> wraps, and the comparisons of the source are the signed
  ones (\<open><s\<close>, \<open>\<le>s\<close>). Calls to the logger do not influence any returned value and are
  left out, as is the cancellation context.
\<close>

type_synonym go_int = "64 word"

text \<open>
  What a Go \<^verbatim>\<open>any\<close> holds in this program. A \<^verbatim>\<open>map[string]any\<close> is an association list
  read with \<open>map_of\<close>; \<open>None\<close> is the nil map, the nil slice, the nil pointer.
\<close>

datatype any =
    VNil
  | VBool bool
  | VInt go_int
  | VFloat real
  | VString string
  | VFloatPtr "real option"
  | VSlice "any list option"
  | VMap "(string \<times> any) list option"

type_synonym go_map = "(string \<times> any) list option"

definition len_map :: "go_map \<Rightarrow> nat" where
  "len_map m = (case m of None \<Rightarrow> 0 | Some kvs \<Rightarrow> length (remdups (map fst kvs)))"

definition elems :: "'a list option \<Rightarrow> 'a list" where
  "elems s = (case s of None \<Rightarrow> [] | Some xs \<Rightarrow> xs)"

definition len_slice :: "'a list option \<Rightarrow> go_int" where
  "len_slice s = of_nat (length (elems s))"

definition append_slice :: "'a list option \<Rightarrow> 'a \<Rightarrow> 'a list option" where
  "append_slice s x = (case s of None \<Rightarrow> Some [x] | Some xs \<Rightarrow> Some (xs @ [x]))"

section \<open>The JSON library\<close>

text \<open>
  \<^verbatim>\<open>encoding/json\<close> is a collaborator. Decoding of a text is a parameter of the model
  (\<open>Inl\<close> carries the text of the error); encoding goes through the JSON value that the
  library documents for each Go value (a nil map, slice or pointer is \<^verbatim>\<open>null\<close>), and
  the rendering of that value as text is a parameter again.
\<close>

datatype json =
    JNull
  | JBool bool
  | JNumber real
  | JString string
  | JArray "json list"
  | JObject "(string \<times> json) list"

fun encode :: "any \<Rightarrow> json" where
  "encode VNil = JNull"
| "encode (VBool b) = JBool b"
| "encode (VInt i) = JNumber (of_int (sint i))"
| "encode (VFloat f) = JNumber f"
| "encode (VString s) = JString s"
| "encode (VFloatPtr None) = JNull"
| "encode (VFloatPtr (Some f)) = JNumber f"
| "encode (VSlice None) = JNull"
| "encode (VSlice (Some xs)) = JArray (map encode xs)"
| "encode (VMap None) = JNull"
| "encode (VMap (Some kvs)) = JObject (map (\<lambda>(k, v). (k, encode v)) kvs)"

record json_lib =
  Unmarshal_map :: "string \<Rightarrow> string + go_map"
  Unmarshal_any :: "string \<Rightarrow> string + any"
  render :: "json \<Rightarrow> string + string"

definition Marshal :: "json_lib \<Rightarrow> any \<Rightarrow> string + string" where
  "Marshal lib v = render lib (encode v)"

section \<open>The tool-call request and result\<close>

text \<open>
  The request is read only through the accessors of the tool-call library; the model
  takes what they return. \<open>RequireString\<close> returns \<open>Inl\<close> with the library's error when
  the argument is absent or is not a string.
\<close>

record CallToolRequest =
  RequireString :: "string \<Rightarrow> string + string"
  GetString :: "string \<Rightarrow> string \<Rightarrow> string"
  GetInt :: "string \<Rightarrow> go_int \<Rightarrow> go_int"
  GetBool :: "string \<Rightarrow> bool \<Rightarrow> bool"

datatype CallToolResult =
    NewToolResultError string
  | NewToolResultText string

section \<open>The backend client\<close>

record IndexInfo =
  Name :: string
  Health :: string
  Status :: string
  UUID :: string
  DocsCount :: string
  DocsDeleted :: string
  StoreSize :: string
  PrimarySize :: string
  PrimaryCount :: string
  ReplicaCount :: string
  CreationDate :: string
  CreationTime :: string

record SearchTotal =
  Value :: go_int
  Relation :: string

record SearchHits =
  Total :: SearchTotal
  MaxScore :: "real option"
  HitsHits :: "go_map list option"

record SearchResponse =
  Took :: go_int
  TimedOut :: bool
  Shards :: go_map
  Hits :: SearchHits
  Aggregations :: go_map

text \<open>
  A call of the client, with the decoding of the reply's body that follows it in each
  handler: \<open>CallFailed\<close> is \<^verbatim>\<open>err != nil\<close>, \<open>ErrorStatus\<close> is \<^verbatim>\<open>res.IsError()\<close> with
  \<^verbatim>\<open>res.String()\<close>, \<open>DecodeFailed\<close> is the decoder's error, \<open>Decoded\<close> the decoded reply.
\<close>

datatype 'a reply =
    CallFailed string
  | ErrorStatus string
  | DecodeFailed string
  | Decoded 'a

datatype info_reply =
    InfoFailed string
  | InfoErrorStatus string
  | InfoOK

datatype cat_indices_option =
    Cat_WithIndex string
  | Cat_WithFormat string
  | Cat_WithH string

datatype get_mapping_option =
    GetMapping_WithIndex string

datatype search_option =
    Search_WithIndex string
  | Search_WithBody string
  | Search_WithTrackTotalHits bool
  | Search_WithPretty
  | Search_WithTimeout string

record es_client =
  Info :: info_reply
  Cat_Indices :: "cat_indices_option list \<Rightarrow> IndexInfo list option reply"
  Indices_GetMapping :: "get_mapping_option list \<Rightarrow> go_map reply"
  Search :: "search_option list \<Rightarrow> SearchResponse reply"

datatype es_call =
    Cat_Indices_call "cat_indices_option list"
  | Indices_GetMapping_call "get_mapping_option list"
  | Search_call "search_option list"

record ElasticsearchHandler =
  client :: es_client

text \<open>What a handler returns, and the calls it made to the backend on the way.\<close>

record outcome =
  result :: CallToolResult
  calls :: "es_call list"

definition no_call :: "CallToolResult \<Rightarrow> outcome" where
  "no_call r = \<lparr>result = r, calls = []\<rparr>"

section \<open>Listing indices\<close>

text \<open>The map built for one index in the loop of \<^verbatim>\<open>handleListIndices\<close>.\<close>

definition index_entry :: "IndexInfo \<Rightarrow> any" where
  "index_entry idx = VMap (Some
     [(''name'', VString (Name idx)),
      (''health'', VString (Health idx)),
      (''status'', VString (Status idx)),
      (''uuid'', VString (UUID idx)),
      (''docs_count'', VString (DocsCount idx)),
      (''docs_deleted'', VString (DocsDeleted idx)),
      (''store_size'', VString (StoreSize idx)),
      (''primary_size'', VString (PrimarySize idx)),
      (''primary_count'', VString (PrimaryCount idx)),
      (''replica_count'', VString (ReplicaCount idx)),
      (''creation_date'', VString (CreationDate idx)),
      (''creation_time'', VString (CreationTime idx))])"

text \<open>
  The loop: \<^verbatim>\<open>var result []map[string]any\<close> starts as the nil slice, and each index
  of the decoded reply appends its map.
\<close>

definition convert_indices :: "IndexInfo list option \<Rightarrow> any list option" where
  "convert_indices indices =
     foldl (\<lambda>res idx. append_slice res (index_entry idx)) None (elems indices)"

definition list_response :: "string \<Rightarrow> any list option \<Rightarrow> (string \<times> any) list" where
  "list_response pattern res =
     [(''total_indices'', VInt (len_slice res)),
      (''pattern'', VString pattern),
      (''indices'', VSlice res)]"

definition cat_indices_options :: "string \<Rightarrow> cat_indices_option list" where
  "cat_indices_options pattern =
     [Cat_WithIndex pattern,
      Cat_WithFormat ''json'',
      Cat_WithH ''index,health,status,uuid,docs.count,docs.deleted,store.size,pri.store.size,pri,rep,creation.date,creation.date.string'']"

definition handleListIndices ::
  "json_lib \<Rightarrow> ElasticsearchHandler \<Rightarrow> CallToolRequest \<Rightarrow> outcome" where
  "handleListIndices lib h request =
     (let pattern = GetString request ''pattern'' ''*'' in
      \<lparr>result =
         (case Cat_Indices (client h) (cat_indices_options pattern) of
            CallFailed err \<Rightarrow> NewToolResultError (''Failed to list indices: '' @ err)
          | ErrorStatus s \<Rightarrow> NewToolResultError (''Elasticsearch error: '' @ s)
          | DecodeFailed err \<Rightarrow> NewToolResultError (''Failed to decode response: '' @ err)
          | Decoded indices \<Rightarrow>
              (case Marshal lib (VMap (Some (list_response pattern (convert_indices indices)))) of
                 Inl err \<Rightarrow> NewToolResultError ''Failed to marshal result to JSON''
               | Inr jsonBytes \<Rightarrow> NewToolResultText jsonBytes)),
       calls = [Cat_Indices_call (cat_indices_options pattern)]\<rparr>)"

section \<open>Index mappings\<close>

definition mappings_response :: "string \<Rightarrow> go_map \<Rightarrow> (string \<times> any) list" where
  "mappings_response index mappings =
     [(''index'', VString index),
      (''mappings'', VMap mappings)]"

definition handleGetMappings ::
  "json_lib \<Rightarrow> ElasticsearchHandler \<Rightarrow> CallToolRequest \<Rightarrow> outcome" where
  "handleGetMappings lib h request =
     (case RequireString request ''index'' of
        Inl err \<Rightarrow> no_call (NewToolResultError ''Missing 'index' parameter'')
      | Inr index \<Rightarrow>
          \<lparr>result =
             (case Indices_GetMapping (client h) [GetMapping_WithIndex index] of
                CallFailed err \<Rightarrow> NewToolResultError (''Failed to get mappings: '' @ err)
              | ErrorStatus s \<Rightarrow> NewToolResultError (''Elasticsearch error: '' @ s)
              | DecodeFailed err \<Rightarrow> NewToolResultError (''Failed to decode response: '' @ err)
              | Decoded mappings \<Rightarrow>
                  (case Marshal lib (VMap (Some (mappings_response index mappings))) of
                     Inl err \<Rightarrow> NewToolResultError ''Failed to marshal result to JSON''
                   | Inr jsonBytes \<Rightarrow> NewToolResultText jsonBytes)),
           calls = [Indices_GetMapping_call [GetMapping_WithIndex index]]\<rparr>)"

section \<open>Search\<close>

text \<open>The range checks on \<^verbatim>\<open>size\<close> and \<^verbatim>\<open>from\<close>; \<open>Some\<close> is the message of the error result.\<close>

definition validate_paging :: "go_int \<Rightarrow> go_int \<Rightarrow> string option" where
  "validate_paging size' from' =
     (if size' <s 0 \<or> 10000 <s size' then Some ''Size parameter must be between 0 and 10000''
      else if from' <s 0 then Some ''From parameter must be >= 0''
      else if 10000 <s from' + size' then Some ''from + size must not exceed 10000''
      else None)"

definition match_all :: go_map where
  "match_all = Some [(''match_all'', VMap (Some []))]"

definition parse_query :: "json_lib \<Rightarrow> string \<Rightarrow> string + go_map" where
  "parse_query lib queryString =
     (if queryString = ''{}'' \<or> queryString = '''' then Inr match_all
      else (case Unmarshal_map lib queryString of
              Inl err \<Rightarrow> Inl (''Invalid query JSON: '' @ err)
            | Inr query \<Rightarrow> if len_map query = 0 then Inr match_all else Inr query))"

definition add_sort ::
  "json_lib \<Rightarrow> string \<Rightarrow> (string \<times> any) list \<Rightarrow> string + (string \<times> any) list" where
  "add_sort lib sortString searchRequest =
     (if sortString \<noteq> '''' then
        (case Unmarshal_any lib sortString of
           Inl err \<Rightarrow> Inl (''Invalid sort JSON: '' @ err)
         | Inr sort' \<Rightarrow> Inr (AList.update ''sort'' sort' searchRequest))
      else Inr searchRequest)"

definition add_aggs ::
  "json_lib \<Rightarrow> string \<Rightarrow> (string \<times> any) list \<Rightarrow> string + (string \<times> any) list" where
  "add_aggs lib aggsString searchRequest =
     (if aggsString \<noteq> '''' then
        (case Unmarshal_map lib aggsString of
           Inl err \<Rightarrow> Inl (''Invalid aggregations JSON: '' @ err)
         | Inr aggs \<Rightarrow> Inr (AList.update ''aggs'' (VMap aggs) searchRequest))
      else Inr searchRequest)"

definition add_source ::
  "json_lib \<Rightarrow> string \<Rightarrow> (string \<times> any) list \<Rightarrow> string + (string \<times> any) list" where
  "add_source lib sourceString searchRequest =
     (if sourceString \<noteq> '''' then
        (case Unmarshal_any lib sourceString of
           Inl err \<Rightarrow> Inl (''Invalid _source JSON: '' @ err)
         | Inr source \<Rightarrow> Inr (AList.update ''_source'' source searchRequest))
      else Inr searchRequest)"

definition add_highlight ::
  "json_lib \<Rightarrow> string \<Rightarrow> (string \<times> any) list \<Rightarrow> string + (string \<times> any) list" where
  "add_highlight lib highlightString searchRequest =
     (if highlightString \<noteq> '''' then
        (case Unmarshal_map lib highlightString of
           Inl err \<Rightarrow> Inl (''Invalid highlight JSON: '' @ err)
         | Inr highlight \<Rightarrow> Inr (AList.update ''highlight'' (VMap highlight) searchRequest))
      else Inr searchRequest)"

text \<open>
  The search request, from the parsed query on: the literal map with \<^verbatim>\<open>track_total_hits\<close>
  and \<^verbatim>\<open>timeout\<close>, then \<^verbatim>\<open>sort\<close>, \<^verbatim>\<open>aggs\<close>, \<^verbatim>\<open>_source\<close> and \<^verbatim>\<open>highlight\<close> in the order of the
  source; the first decoding error ends it.
\<close>

definition initial_search_request ::
  "go_map \<Rightarrow> go_int \<Rightarrow> go_int \<Rightarrow> bool \<Rightarrow> string \<Rightarrow> (string \<times> any) list" where
  "initial_search_request query size' from' trackTotalHits timeout =
     (let searchRequest = [(''query'', VMap query), (''size'', VInt size'), (''from'', VInt from')];
          searchRequest = (if trackTotalHits
                           then AList.update ''track_total_hits'' (VBool True) searchRequest
                           else searchRequest)
      in if timeout \<noteq> ''''
         then AList.update ''timeout'' (VString timeout) searchRequest
         else searchRequest)"

definition build_search_request ::
  "json_lib \<Rightarrow> go_map \<Rightarrow> go_int \<Rightarrow> go_int \<Rightarrow> bool \<Rightarrow> string \<Rightarrow> string \<Rightarrow> string \<Rightarrow> string \<Rightarrow> string
     \<Rightarrow> string + (string \<times> any) list" where
  "build_search_request lib query size' from' trackTotalHits timeout
       sortString aggsString sourceString highlightString =
     (case add_sort lib sortString
             (initial_search_request query size' from' trackTotalHits timeout) of
        Inl msg \<Rightarrow> Inl msg
      | Inr searchRequest \<Rightarrow>
     (case add_aggs lib aggsString searchRequest of
        Inl msg \<Rightarrow> Inl msg
      | Inr searchRequest \<Rightarrow>
     (case add_source lib sourceString searchRequest of
        Inl msg \<Rightarrow> Inl msg
      | Inr searchRequest \<Rightarrow> add_highlight lib highlightString searchRequest)))"

definition search_options :: "string \<Rightarrow> string \<Rightarrow> bool \<Rightarrow> string \<Rightarrow> search_option list" where
  "search_options index searchBody trackTotalHits timeout =
     [Search_WithIndex index,
      Search_WithBody searchBody,
      Search_WithTrackTotalHits trackTotalHits,
      Search_WithPretty]
     @ (if timeout \<noteq> '''' then [Search_WithTimeout timeout] else [])"

text \<open>The map returned for a decoded reply.\<close>

definition search_result ::
  "string \<Rightarrow> SearchResponse \<Rightarrow> go_int \<Rightarrow> go_int \<Rightarrow> (string \<times> any) list" where
  "search_result index searchResponse from' size' =
     (let response =
        [(''index'', VString index),
         (''took'', VInt (Took searchResponse)),
         (''timed_out'', VBool (TimedOut searchResponse)),
         (''total_hits'', VInt (Value (Total (Hits searchResponse)))),
         (''max_score'', VFloatPtr (MaxScore (Hits searchResponse))),
         (''hits'', VSlice (map_option (map VMap) (HitsHits (Hits searchResponse)))),
         (''shards'', VMap (Shards searchResponse)),
         (''from'', VInt from'),
         (''size'', VInt size')]
      in if Aggregations searchResponse \<noteq> None \<and> 0 < len_map (Aggregations searchResponse)
         then AList.update ''aggregations'' (VMap (Aggregations searchResponse)) response
         else response)"

definition handleSearch ::
  "json_lib \<Rightarrow> ElasticsearchHandler \<Rightarrow> CallToolRequest \<Rightarrow> outcome" where
  "handleSearch lib h request =
     (case RequireString request ''index'' of
        Inl err \<Rightarrow> no_call (NewToolResultError ''Missing 'index' parameter'')
      | Inr index \<Rightarrow>
     (let queryString = GetString request ''query'' ''{}'';
          size' = GetInt request ''size'' 10;
          from' = GetInt request ''from'' 0;
          sortString = GetString request ''sort'' '''';
          aggsString = GetString request ''aggs'' '''';
          sourceString = GetString request ''_source'' '''';
          highlightString = GetString request ''highlight'' '''';
          trackTotalHits = GetBool request ''track_total_hits'' True;
          timeout = GetString request ''timeout'' ''''
      in case validate_paging size' from' of
           Some msg \<Rightarrow> no_call (NewToolResultError msg)
         | None \<Rightarrow>
        (case parse_query lib queryString of
           Inl msg \<Rightarrow> no_call (NewToolResultError msg)
         | Inr query \<Rightarrow>
        (case build_search_request lib query size' from' trackTotalHits timeout
                sortString aggsString sourceString highlightString of
           Inl msg \<Rightarrow> no_call (NewToolResultError msg)
         | Inr searchRequest \<Rightarrow>
        (case Marshal lib (VMap (Some searchRequest)) of
           Inl err \<Rightarrow> no_call (NewToolResultError ''Failed to create search request'')
         | Inr searchBody \<Rightarrow>
        (let searchOptions = search_options index searchBody trackTotalHits timeout in
         \<lparr>result =
            (case Search (client h) searchOptions of
               CallFailed err \<Rightarrow> NewToolResultError (''Failed to execute search: '' @ err)
             | ErrorStatus s \<Rightarrow> NewToolResultError (''Elasticsearch search error: '' @ s)
             | DecodeFailed err \<Rightarrow> NewToolResultError (''Failed to decode response: '' @ err)
             | Decoded searchResponse \<Rightarrow>
                 (case Marshal lib (VMap (Some (search_result index searchResponse from' size'))) of
                    Inl err \<Rightarrow> NewToolResultError ''Failed to marshal result to JSON''
                  | Inr jsonBytes \<Rightarrow> NewToolResultText jsonBytes)),
          calls = [Search_call searchOptions]\<rparr>))))))"

section \<open>Configuration and construction\<close>

text \<open>
  The structs of \<^verbatim>\<open>config.go\<close>. The field \<^verbatim>\<open>Name\<close> of \<^verbatim>\<open>ServerConfig\<close> is \<open>ServerName\<close> here,
  \<open>Name\<close> being the field of \<open>IndexInfo\<close>.
\<close>

record ElasticsearchConfig =
  URL :: string
  APIKey :: string
  Username :: string
  Password :: string

record ServerConfig =
  ServerName :: string
  Version :: string

record LoggingConfig =
  Level :: string
  Format :: string
  Output :: string

record Config =
  Elasticsearch :: ElasticsearchConfig
  Server :: ServerConfig
  Logging :: LoggingConfig

definition validLogLevels :: "(string \<times> bool) list" where
  "validLogLevels =
     [(''debug'', True), (''info'', True), (''warn'', True), (''error'', True), (''fatal'', True)]"

text \<open>\<open>None\<close> is the nil error.\<close>

definition validateConfig :: "Config \<Rightarrow> string option" where
  "validateConfig config =
     (if URL (Elasticsearch config) = '''' then
        Some ''ES_URL environment variable is required''
      else if APIKey (Elasticsearch config) = '''' \<and>
              (Username (Elasticsearch config) = '''' \<or> Password (Elasticsearch config) = '''') then
        Some ''either ES_API_KEY or ES_USERNAME+ES_PASSWORD must be provided''
      else if \<not> (case map_of validLogLevels (Level (Logging config)) of
                    None \<Rightarrow> False | Some b \<Rightarrow> b) then
        Some (''invalid log level: '' @ Level (Logging config))
      else None)"

text \<open>
  The environment is read through \<^verbatim>\<open>os.Getenv\<close>, which gives the empty string for a
  variable that is not set: \<open>env\<close> is that function, after the \<^verbatim>\<open>.env\<close> file was loaded.
\<close>

definition getEnv :: "(string \<Rightarrow> string) \<Rightarrow> string \<Rightarrow> string \<Rightarrow> string" where
  "getEnv env key defaultValue = (if env key \<noteq> '''' then env key else defaultValue)"

text \<open>The default server name ends in a magnifying glass, four bytes in UTF-8.\<close>

definition default_server_name :: string where
  "default_server_name = ''mcp-elasticsearch '' @ map char_of [240 :: nat, 159, 148, 141]"

definition loadConfig :: "(string \<Rightarrow> string) \<Rightarrow> string \<Rightarrow> string + Config" where
  "loadConfig env version =
     (let config =
        \<lparr>Elasticsearch =
           \<lparr>URL = getEnv env ''ES_URL'' ''http://localhost:9200'',
            APIKey = getEnv env ''ES_API_KEY'' '''',
            Username = getEnv env ''ES_USERNAME'' '''',
            Password = getEnv env ''ES_PASSWORD'' ''''\<rparr>,
         Server =
           \<lparr>ServerName = getEnv env ''MCP_ES_SERVER_NAME'' default_server_name,
            Version = version\<rparr>,
         Logging =
           \<lparr>Level = getEnv env ''MCP_ES_LOG_LEVEL'' ''info'',
            Format = getEnv env ''MCP_ES_LOG_FORMAT'' ''console'',
            Output = getEnv env ''MCP_ES_LOG_OUTPUT'' ''stderr''\<rparr>\<rparr>
      in case validateConfig config of
           Some err \<Rightarrow> Inl (''invalid configuration: '' @ err)
         | None \<Rightarrow> Inr config)"

text \<open>The configuration handed to the client library.\<close>

record elasticsearch_Config =
  es_Addresses :: "string list"
  es_APIKey :: string
  es_Username :: string
  es_Password :: string

definition client_config :: "ElasticsearchConfig \<Rightarrow> elasticsearch_Config" where
  "client_config cfg =
     (let esCfg = \<lparr>es_Addresses = [URL cfg], es_APIKey = '''', es_Username = '''', es_Password = ''''\<rparr>
      in if APIKey cfg \<noteq> '''' then esCfg\<lparr>es_APIKey := APIKey cfg\<rparr>
         else if Username cfg \<noteq> '''' \<and> Password cfg \<noteq> '''' then
           esCfg\<lparr>es_Username := Username cfg, es_Password := Password cfg\<rparr>
         else esCfg)"

text \<open>
  \<open>NewClient\<close> is the constructor of the client library. The connection test is the one
  call of \<open>Info\<close>.
\<close>

definition newElasticsearchHandler ::
  "(elasticsearch_Config \<Rightarrow> string + es_client) \<Rightarrow> ElasticsearchConfig
     \<Rightarrow> string + ElasticsearchHandler" where
  "newElasticsearchHandler NewClient cfg =
     (case NewClient (client_config cfg) of
        Inl err \<Rightarrow> Inl (''error creating elasticsearch client: '' @ err)
      | Inr client' \<Rightarrow>
          (case Info client' of
             InfoFailed err \<Rightarrow> Inl (''error connecting to elasticsearch: '' @ err)
           | InfoErrorStatus s \<Rightarrow> Inl (''elasticsearch connection error: '' @ s)
           | InfoOK \<Rightarrow> Inr \<lparr>client = client'\<rparr>))"

text \<open>
  \<^verbatim>\<open>run\<close> up to the construction of the handler; the registration of the tools and the
  serving loop follow it. \<open>newLogger\<close> is not among the sources and is a parameter.
\<close>

definition run ::
  "(string \<Rightarrow> string) \<Rightarrow> string \<Rightarrow> (LoggingConfig \<Rightarrow> string + unit)
     \<Rightarrow> (elasticsearch_Config \<Rightarrow> string + es_client) \<Rightarrow> string + ElasticsearchHandler" where
  "run env version newLogger NewClient =
     (case loadConfig env version of
        Inl err \<Rightarrow> Inl (''failed to load configuration: '' @ err)
      | Inr cfg \<Rightarrow>
          (let cfg = (if version \<noteq> ''dev''
                      then cfg\<lparr>Server := (Server cfg)\<lparr>Version := version\<rparr>\<rparr> else cfg)
           in case newLogger (Logging cfg) of
                Inl err \<Rightarrow> Inl (''failed to initialize logger: '' @ err)
              | Inr logger \<Rightarrow>
                  (case newElasticsearchHandler NewClient (Elasticsearch cfg) of
                     Inl err \<Rightarrow> Inl (''failed to initialize Elasticsearch handler: '' @ err)
                   | Inr esHandler \<Rightarrow> Inr esHandler)))"

section \<open>Malformed sub-fields of a search\<close>

text \<open>
  The five arguments that carry JSON text, in the order in which \<^verbatim>\<open>handleSearch\<close> decodes
  them, the name each has in the error message, and the decoder's error for the text of
  a field: \<open>None\<close> when the text is empty (for the query also when it is \<^verbatim>\<open>{}\<close>), since
  the decoder is not asked then, or when the decoder accepts it into the target of that
  field (a map for \<^verbatim>\<open>query\<close>, \<^verbatim>\<open>aggs\<close> and \<^verbatim>\<open>highlight\<close>, any value for \<^verbatim>\<open>sort\<close> and \<^verbatim>\<open>_source\<close>).
\<close>

datatype field = Query | Sort | Aggs | Source | Highlight

fun field_label :: "field \<Rightarrow> string" where
  "field_label Query = ''query''"
| "field_label Sort = ''sort''"
| "field_label Aggs = ''aggregations''"
| "field_label Source = ''_source''"
| "field_label Highlight = ''highlight''"

fun earlier_fields :: "field \<Rightarrow> field list" where
  "earlier_fields Query = []"
| "earlier_fields Sort = [Query]"
| "earlier_fields Aggs = [Query, Sort]"
| "earlier_fields Source = [Query, Sort, Aggs]"
| "earlier_fields Highlight = [Query, Sort, Aggs, Source]"

definition error_of :: "string + 'a \<Rightarrow> string option" where
  "error_of r = (case r of Inl e \<Rightarrow> Some e | Inr v \<Rightarrow> None)"

fun decode_error :: "json_lib \<Rightarrow> CallToolRequest \<Rightarrow> field \<Rightarrow> string option" where
  "decode_error lib request Query =
     (let s = GetString request ''query'' ''{}''
      in if s = '''' \<or> s = ''{}'' then None else error_of (Unmarshal_map lib s))"
| "decode_error lib request Sort =
     (let s = GetString request ''sort'' ''''
      in if s = '''' then None else error_of (Unmarshal_any lib s))"
| "decode_error lib request Aggs =
     (let s = GetString request ''aggs'' ''''
      in if s = '''' then None else error_of (Unmarshal_map lib s))"
| "decode_error lib request Source =
     (let s = GetString request ''_source'' ''''
      in if s = '''' then None else error_of (Unmarshal_any lib s))"
| "decode_error lib request Highlight =
     (let s = GetString request ''highlight'' ''''
      in if s = '''' then None else error_of (Unmarshal_map lib s))"

section \<open>Collaborators for the examples\<close>

text \<open>
  A request built from arguments of the declared types, as the accessors read it: an
  absent argument gives the default, and \<open>RequireString\<close> reports an absent argument
  and one that is not a string with two different errors. It stands for the library
  only on such arguments: the library's \<^verbatim>\<open>GetInt\<close> also converts a number given as a
  string, and its \<^verbatim>\<open>GetBool\<close> a string or a number, where \<open>request_with\<close> gives the
  default. No example below has such an argument, and the general theorems are stated
  for any \<open>CallToolRequest\<close>, not for \<open>request_with\<close>.
\<close>

datatype argument =
    StringArg string
  | IntArg go_int
  | BoolArg bool

definition request_with :: "(string \<times> argument) list \<Rightarrow> CallToolRequest" where
  \<open>request_with args =
     \<lparr>RequireString = (\<lambda>key. case map_of args key of
          None \<Rightarrow> Inl (''required argument "'' @ key @ ''" not found'')
        | Some (StringArg s) \<Rightarrow> Inr s
        | Some _ \<Rightarrow> Inl (''argument "'' @ key @ ''" is not a string'')),
      GetString = (\<lambda>key defaultValue. case map_of args key of
          Some (StringArg s) \<Rightarrow> s | _ \<Rightarrow> defaultValue),
      GetInt = (\<lambda>key defaultValue. case map_of args key of
          Some (IntArg i) \<Rightarrow> i | _ \<Rightarrow> defaultValue),
      GetBool = (\<lambda>key defaultValue. case map_of args key of
          Some (BoolArg b) \<Rightarrow> b | _ \<Rightarrow> defaultValue)\<rparr>\<close>

text \<open>
  A decoder fixed on the texts of the examples, with the values and the error text that
  \<^verbatim>\<open>encoding/json\<close> gives for them, and a renderer that always succeeds.
\<close>

definition sample_unmarshal_map :: "string \<Rightarrow> string + go_map" where
  \<open>sample_unmarshal_map s =
     (if s = ''{"match":{"a":1}}'' then
        Inr (Some [(''match'', VMap (Some [(''a'', VFloat 1)]))])
      else if s = ''{ }'' then Inr (Some [])
      else if s = ''{"by_level":{"terms":{"field":"level"}}}'' then
        Inr (Some [(''by_level'',
               VMap (Some [(''terms'', VMap (Some [(''field'', VString ''level'')]))]))])
      else if s = ''{"fields":{"title":{}}}'' then
        Inr (Some [(''fields'', VMap (Some [(''title'', VMap (Some []))]))])
      else Inl ''unexpected end of JSON input'')\<close>

definition sample_unmarshal_any :: "string \<Rightarrow> string + any" where
  \<open>sample_unmarshal_any s =
     (if s = ''[{"ts":"desc"}]'' then
        Inr (VSlice (Some [VMap (Some [(''ts'', VString ''desc'')])]))
      else if s = ''["title"]'' then Inr (VSlice (Some [VString ''title'']))
      else Inl ''unexpected end of JSON input'')\<close>

definition sample_lib :: json_lib where
  "sample_lib =
     \<lparr>Unmarshal_map = sample_unmarshal_map,
      Unmarshal_any = sample_unmarshal_any,
      render = (\<lambda>j. Inr ''(json)'')\<rparr>"

text \<open>
  A simulated backend: it holds indices by name, and answers a listing with those that
  match the requested pattern, where \<^verbatim>\<open>*\<close> stands for any run of characters.
\<close>

fun wildcard_match :: "string \<Rightarrow> string \<Rightarrow> bool" where
  "wildcard_match [] [] = True"
| "wildcard_match [] (c # cs) = False"
| "wildcard_match (p # ps) [] = (p = CHR ''*'' \<and> wildcard_match ps [])"
| "wildcard_match (p # ps) (c # cs) =
     (if p = CHR ''*'' then wildcard_match ps (c # cs) \<or> wildcard_match (p # ps) cs
      else p = c \<and> wildcard_match ps cs)"

definition index_named :: "string \<Rightarrow> IndexInfo" where
  "index_named n =
     \<lparr>Name = n, Health = ''green'', Status = ''open'', UUID = '''', DocsCount = ''0'',
      DocsDeleted = ''0'', StoreSize = ''225b'', PrimarySize = ''225b'', PrimaryCount = ''1'',
      ReplicaCount = ''0'', CreationDate = '''', CreationTime = ''''\<rparr>"

definition simulated_cat_indices ::
  "string list \<Rightarrow> cat_indices_option list \<Rightarrow> IndexInfo list option reply" where
  "simulated_cat_indices names opts =
     Decoded (Some (map index_named
       (filter (\<lambda>n. list_ex (\<lambda>opt. case opt of Cat_WithIndex p \<Rightarrow> wildcard_match p n
                                        | _ \<Rightarrow> False) opts) names)))"

definition sample_search_response :: SearchResponse where
  "sample_search_response =
     \<lparr>Took = 3, TimedOut = False,
      Shards = Some [(''total'', VFloat 1), (''successful'', VFloat 1)],
      Hits = \<lparr>Total = \<lparr>Value = 2, Relation = ''eq''\<rparr>, MaxScore = None,
              HitsHits = Some [Some [(''_id'', VString ''b'')], Some [(''_id'', VString ''a'')]]\<rparr>,
      Aggregations = Some [(''by_level'', VMap (Some [(''buckets'', VSlice (Some []))]))]\<rparr>"

definition sample_client :: es_client where
  "sample_client =
     \<lparr>Info = InfoOK,
      Cat_Indices = simulated_cat_indices [''logs-a'', ''logs-b'', ''metrics-a''],
      Indices_GetMapping = (\<lambda>opts. Decoded (Some [])),
      Search = (\<lambda>opts. Decoded sample_search_response)\<rparr>"

definition sample_handler :: ElasticsearchHandler where
  "sample_handler = \<lparr>client = sample_client\<rparr>"

section \<open>What a search dispatches\<close>

lemmas sample_defs = sample_lib_def sample_handler_def sample_client_def request_with_def
  sample_unmarshal_map_def sample_unmarshal_any_def

lemmas search_defs = handleSearch_def no_call_def validate_paging_def parse_query_def
  build_search_request_def initial_search_request_def add_sort_def add_aggs_def add_source_def
  add_highlight_def Marshal_def search_options_def match_all_def len_map_def

text \<open>
  A search calls the backend at most once, and only after the index was read, the range
  checks passed, the query was parsed, and the request was assembled and marshalled.
\<close>

lemma handleSearch_calls:
  "calls (handleSearch lib h request) = [] \<or>
   (\<exists>index query doc body.
      RequireString request ''index'' = Inr index \<and>
      validate_paging (GetInt request ''size'' 10) (GetInt request ''from'' 0) = None \<and>
      parse_query lib (GetString request ''query'' ''{}'') = Inr query \<and>
      build_search_request lib query (GetInt request ''size'' 10) (GetInt request ''from'' 0)
        (GetBool request ''track_total_hits'' True) (GetString request ''timeout'' '''')
        (GetString request ''sort'' '''') (GetString request ''aggs'' '''')
        (GetString request ''_source'' '''') (GetString request ''highlight'' '''') = Inr doc \<and>
      Marshal lib (VMap (Some doc)) = Inr body \<and>
      calls (handleSearch lib h request) =
        [Search_call (search_options index body (GetBool request ''track_total_hits'' True)
           (GetString request ''timeout'' ''''))])"
  by (simp add: handleSearch_def no_call_def Let_def split: sum.splits option.splits)

text \<open>Conversely, when all of that succeeds, the search is sent.\<close>

lemma handleSearch_dispatches:
  assumes "RequireString request ''index'' = Inr index"
    and "validate_paging (GetInt request ''size'' 10) (GetInt request ''from'' 0) = None"
    and "parse_query lib (GetString request ''query'' ''{}'') = Inr query"
    and "build_search_request lib query (GetInt request ''size'' 10) (GetInt request ''from'' 0)
        (GetBool request ''track_total_hits'' True) (GetString request ''timeout'' '''')
        (GetString request ''sort'' '''') (GetString request ''aggs'' '''')
        (GetString request ''_source'' '''') (GetString request ''highlight'' '''') = Inr doc"
    and "Marshal lib (VMap (Some doc)) = Inr body"
  shows "calls (handleSearch lib h request) =
        [Search_call (search_options index body (GetBool request ''track_total_hits'' True)
           (GetString request ''timeout'' ''''))]"
  using assms by (simp add: handleSearch_def Let_def)

section \<open>The range checks\<close>

text \<open>
  Away from the top of the range of \<^verbatim>\<open>int\<close> the checks pass exactly for
  \<open>0 \<le> size \<le> 10000\<close>, \<open>0 \<le> from\<close> and \<open>from + size \<le> 10000\<close>.
\<close>

lemma validate_paging_iff:
  assumes "sint from' \<le> 2 ^ 63 - 1 - 10000"
  shows "validate_paging size' from' = None \<longleftrightarrow>
         0 \<le> sint size' \<and> sint size' \<le> 10000 \<and> 0 \<le> sint from' \<and>
         sint from' + sint size' \<le> 10000"
proof (cases "0 \<le> sint size' \<and> sint size' \<le> 10000 \<and> 0 \<le> sint from'")
  case True
  have "sint (from' + size') = sint from' + sint size'"
    using True assms by (simp add: sint_word_add signed_take_bit_int_eq_self)
  then show ?thesis using True
    by (simp add: validate_paging_def word_sless_alt)
next
  case False
  then show ?thesis
    by (auto simp add: validate_paging_def word_sless_alt)
qed

text \<open>A failed check is returned as the error result, and the backend is not called.\<close>

lemma handleSearch_paging_error:
  assumes "RequireString request ''index'' = Inr index"
    and "validate_paging (GetInt request ''size'' 10) (GetInt request ''from'' 0) = Some msg"
  shows "handleSearch lib h request = \<lparr>result = NewToolResultError msg, calls = []\<rparr>"
  using assms by (simp add: handleSearch_def no_call_def Let_def)

text \<open>
  Claim C1, at the input where the code departs from it. For \<open>size = 10000\<close> and
  \<open>from = 9223372036854774784\<close> (which is \<open>2^63 - 1024\<close>) the sum \<^verbatim>\<open>from+size\<close> of the third
  check wraps around to a negative number: the checks pass, although \<open>from + size\<close> is
  far above 10000, and the search is sent to the backend.
\<close>

theorem C1_paging_overflow_passes:
  "validate_paging 10000 9223372036854774784 = None \<and>
   \<not> sint (9223372036854774784 :: go_int) + sint (10000 :: go_int) \<le> 10000 \<and>
   calls (handleSearch sample_lib sample_handler
     (request_with [(''index'', StringArg ''logs-a''), (''size'', IntArg 10000),
                    (''from'', IntArg 9223372036854774784)])) =
     [Search_call [Search_WithIndex ''logs-a'', Search_WithBody ''(json)'',
        Search_WithTrackTotalHits True, Search_WithPretty]]"
  by (simp add: sample_defs search_defs word_sless_alt Let_def)

section \<open>The assembled search request\<close>

lemma add_sort_map_of:
  "add_sort lib s m = Inr m' \<Longrightarrow>
   map_of m' = (if s = '''' then map_of m
                else (map_of m)(''sort'' := (case Unmarshal_any lib s of Inr v \<Rightarrow> Some v | Inl e \<Rightarrow> None)))"
  by (auto simp add: add_sort_def update_conv' split: if_splits sum.splits)

lemma add_source_map_of:
  "add_source lib s m = Inr m' \<Longrightarrow>
   map_of m' = (if s = '''' then map_of m
                else (map_of m)(''_source'' := (case Unmarshal_any lib s of Inr v \<Rightarrow> Some v | Inl e \<Rightarrow> None)))"
  by (auto simp add: add_source_def update_conv' split: if_splits sum.splits)

lemma add_aggs_map_of:
  "add_aggs lib s m = Inr m' \<Longrightarrow>
   map_of m' = (if s = '''' then map_of m
                else (map_of m)(''aggs'' := (case Unmarshal_map lib s of Inr v \<Rightarrow> Some (VMap v) | Inl e \<Rightarrow> None)))"
  by (auto simp add: add_aggs_def update_conv' split: if_splits sum.splits)

lemma add_highlight_map_of:
  "add_highlight lib s m = Inr m' \<Longrightarrow>
   map_of m' = (if s = '''' then map_of m
                else (map_of m)(''highlight'' := (case Unmarshal_map lib s of Inr v \<Rightarrow> Some (VMap v) | Inl e \<Rightarrow> None)))"
  by (auto simp add: add_highlight_def update_conv' split: if_splits sum.splits)

lemma initial_search_request_map_of:
  "map_of (initial_search_request query size' from' tth timeout) =
     (\<lambda>k. if k = ''timeout'' \<and> timeout \<noteq> '''' then Some (VString timeout)
          else if k = ''track_total_hits'' \<and> tth then Some (VBool True)
          else map_of [(''query'', VMap query), (''size'', VInt size'), (''from'', VInt from')] k)"
  by (auto simp add: initial_search_request_def Let_def update_conv' fun_eq_iff)

lemma build_search_request_steps:
  assumes "build_search_request lib query size' from' tth timeout so ag sr hl = Inr doc"
  obtains m1 m2 m3 where
     "add_sort lib so (initial_search_request query size' from' tth timeout) = Inr m1"
     "add_aggs lib ag m1 = Inr m2"
     "add_source lib sr m2 = Inr m3" "add_highlight lib hl m3 = Inr doc"
  using assms
  by (auto simp add: build_search_request_def split: sum.splits)

text \<open>The keys of an assembled request, read from the last one added.\<close>

lemma build_search_request_map_of:
  assumes "build_search_request lib query size' from' tth timeout so ag sr hl = Inr doc"
  shows "map_of doc k =
     (if k = ''highlight'' \<and> hl \<noteq> '''' then
        (case Unmarshal_map lib hl of Inr v \<Rightarrow> Some (VMap v) | Inl e \<Rightarrow> None)
      else if k = ''_source'' \<and> sr \<noteq> '''' then
        (case Unmarshal_any lib sr of Inr v \<Rightarrow> Some v | Inl e \<Rightarrow> None)
      else if k = ''aggs'' \<and> ag \<noteq> '''' then
        (case Unmarshal_map lib ag of Inr v \<Rightarrow> Some (VMap v) | Inl e \<Rightarrow> None)
      else if k = ''sort'' \<and> so \<noteq> '''' then
        (case Unmarshal_any lib so of Inr v \<Rightarrow> Some v | Inl e \<Rightarrow> None)
      else if k = ''timeout'' \<and> timeout \<noteq> '''' then Some (VString timeout)
      else if k = ''track_total_hits'' \<and> tth then Some (VBool True)
      else map_of [(''query'', VMap query), (''size'', VInt size'), (''from'', VInt from')] k)"
proof -
  from assms obtain m1 m2 m3 where
    s: "add_sort lib so (initial_search_request query size' from' tth timeout) = Inr m1"
       "add_aggs lib ag m1 = Inr m2"
       "add_source lib sr m2 = Inr m3" "add_highlight lib hl m3 = Inr doc"
    by (rule build_search_request_steps)
  show ?thesis
    unfolding add_highlight_map_of [OF s(4)] add_source_map_of [OF s(3)]
      add_aggs_map_of [OF s(2)] add_sort_map_of [OF s(1)] initial_search_request_map_of
    by simp
qed

lemma parse_query_blank:
  assumes "q = '''' \<or> q = ''{}'' \<or> Unmarshal_map lib q = Inr (Some [])"
  shows "parse_query lib q = Inr match_all"
  using assms by (auto simp add: parse_query_def len_map_def)

text \<open>
  Claim C2. When the \<^verbatim>\<open>query\<close> argument of a search is the empty string, the text
  \<^verbatim>\<open>{}\<close>, or a text that the decoder reads as an empty object, every search that reaches
  the backend sends the marshalled form of a request whose \<^verbatim>\<open>query\<close> key holds exactly
  the map \<^verbatim>\<open>{"match_all": {}}\<close>.
\<close>

theorem C2_blank_query_is_match_all:
  assumes "GetString request ''query'' ''{}'' = q"
    and "q = '''' \<or> q = ''{}'' \<or> Unmarshal_map lib q = Inr (Some [])"
    and "calls (handleSearch lib h request) \<noteq> []"
  shows "\<exists>index doc body.
           calls (handleSearch lib h request) =
             [Search_call (search_options index body (GetBool request ''track_total_hits'' True)
                (GetString request ''timeout'' ''''))] \<and>
           Marshal lib (VMap (Some doc)) = Inr body \<and>
           map_of doc ''query'' = Some (VMap (Some [(''match_all'', VMap (Some []))]))"
proof -
  from handleSearch_calls [of lib h request] assms(3) obtain index query doc body where
    pq: "parse_query lib (GetString request ''query'' ''{}'') = Inr query" and
    b: "build_search_request lib query (GetInt request ''size'' 10) (GetInt request ''from'' 0)
        (GetBool request ''track_total_hits'' True) (GetString request ''timeout'' '''')
        (GetString request ''sort'' '''') (GetString request ''aggs'' '''')
        (GetString request ''_source'' '''') (GetString request ''highlight'' '''') = Inr doc" and
    m: "Marshal lib (VMap (Some doc)) = Inr body" and
    c: "calls (handleSearch lib h request) =
        [Search_call (search_options index body (GetBool request ''track_total_hits'' True)
           (GetString request ''timeout'' ''''))]"
    by blast
  from pq assms(1) parse_query_blank [OF assms(2)] have "query = match_all" by simp
  then have "map_of doc ''query'' = Some (VMap (Some [(''match_all'', VMap (Some []))]))"
    using build_search_request_map_of [OF b, of "''query''"] by (simp add: match_all_def)
  with m c show ?thesis by blast
qed

text \<open>
  The search of \<^verbatim>\<open>logs-a\<close> with the query \<^verbatim>\<open>{ }\<close>, which is neither empty nor the text
  \<^verbatim>\<open>{}\<close> and decodes to the empty object, reaches the backend with \<^verbatim>\<open>match_all\<close>.
\<close>

theorem C2_blank_query_is_match_all_witness:
  "GetString (request_with [(''index'', StringArg ''logs-a''), (''query'', StringArg ''{ }'')])
     ''query'' ''{}'' = ''{ }'' \<and>
   Unmarshal_map sample_lib ''{ }'' = Inr (Some []) \<and>
   (\<exists>index doc body.
      calls (handleSearch sample_lib sample_handler
        (request_with [(''index'', StringArg ''logs-a''), (''query'', StringArg ''{ }'')])) =
        [Search_call (search_options index body True '''')] \<and>
      Marshal sample_lib (VMap (Some doc)) = Inr body \<and>
      map_of doc ''query'' = Some (VMap (Some [(''match_all'', VMap (Some []))])))"
proof -
  let ?r = "request_with [(''index'', StringArg ''logs-a''), (''query'', StringArg ''{ }'')]"
  have h1: "GetString ?r ''query'' ''{}'' = ''{ }''"
    by (simp add: request_with_def)
  have h2: "''{ }'' = '''' \<or> ''{ }'' = ''{}'' \<or> Unmarshal_map sample_lib ''{ }'' = Inr (Some [])"
    by (simp add: sample_defs)
  have h3: "calls (handleSearch sample_lib sample_handler ?r) \<noteq> []"
    by (simp add: sample_defs search_defs word_sless_alt Let_def)
  have h4: "GetBool ?r ''track_total_hits'' True = True" "GetString ?r ''timeout'' '''' = ''''"
    by (simp_all add: request_with_def)
  from C2_blank_query_is_match_all [OF h1 h2 h3] h1 h2 h4 show ?thesis
    by simp
qed

section \<open>Malformed JSON in a search\<close>

lemma handleSearch_parse_error:
  assumes "RequireString request ''index'' = Inr index"
    and "validate_paging (GetInt request ''size'' 10) (GetInt request ''from'' 0) = None"
    and "parse_query lib (GetString request ''query'' ''{}'') = Inl msg"
  shows "handleSearch lib h request = \<lparr>result = NewToolResultError msg, calls = []\<rparr>"
  using assms by (simp add: handleSearch_def no_call_def Let_def)

lemma handleSearch_build_error:
  assumes "RequireString request ''index'' = Inr index"
    and "validate_paging (GetInt request ''size'' 10) (GetInt request ''from'' 0) = None"
    and "parse_query lib (GetString request ''query'' ''{}'') = Inr query"
    and "build_search_request lib query (GetInt request ''size'' 10) (GetInt request ''from'' 0)
        (GetBool request ''track_total_hits'' True) (GetString request ''timeout'' '''')
        (GetString request ''sort'' '''') (GetString request ''aggs'' '''')
        (GetString request ''_source'' '''') (GetString request ''highlight'' '''') = Inl msg"
  shows "handleSearch lib h request = \<lparr>result = NewToolResultError msg, calls = []\<rparr>"
  using assms by (simp add: handleSearch_def no_call_def Let_def)

lemma parse_query_decode_error:
  "decode_error lib request Query = Some e \<Longrightarrow>
   parse_query lib (GetString request ''query'' ''{}'') = Inl (''Invalid query JSON: '' @ e)"
  by (auto simp add: parse_query_def error_of_def Let_def split: sum.splits if_splits)

lemma parse_query_decode_ok:
  "decode_error lib request Query = None \<Longrightarrow>
   \<exists>query. parse_query lib (GetString request ''query'' ''{}'') = Inr query"
  by (auto simp add: parse_query_def error_of_def Let_def split: sum.splits if_splits)

lemma add_sort_decode_error:
  "decode_error lib request Sort = Some e \<Longrightarrow>
   add_sort lib (GetString request ''sort'' '''') m = Inl (''Invalid sort JSON: '' @ e)"
  by (auto simp add: add_sort_def error_of_def Let_def split: sum.splits if_splits)

lemma add_sort_decode_ok:
  "decode_error lib request Sort = None \<Longrightarrow>
   \<exists>m'. add_sort lib (GetString request ''sort'' '''') m = Inr m'"
  by (auto simp add: add_sort_def error_of_def Let_def split: sum.splits if_splits)

lemma add_aggs_decode_error:
  "decode_error lib request Aggs = Some e \<Longrightarrow>
   add_aggs lib (GetString request ''aggs'' '''') m = Inl (''Invalid aggregations JSON: '' @ e)"
  by (auto simp add: add_aggs_def error_of_def Let_def split: sum.splits if_splits)

lemma add_aggs_decode_ok:
  "decode_error lib request Aggs = None \<Longrightarrow>
   \<exists>m'. add_aggs lib (GetString request ''aggs'' '''') m = Inr m'"
  by (auto simp add: add_aggs_def error_of_def Let_def split: sum.splits if_splits)

lemma add_source_decode_error:
  "decode_error lib request Source = Some e \<Longrightarrow>
   add_source lib (GetString request ''_source'' '''') m = Inl (''Invalid _source JSON: '' @ e)"
  by (auto simp add: add_source_def error_of_def Let_def split: sum.splits if_splits)

lemma add_source_decode_ok:
  "decode_error lib request Source = None \<Longrightarrow>
   \<exists>m'. add_source lib (GetString request ''_source'' '''') m = Inr m'"
  by (auto simp add: add_source_def error_of_def Let_def split: sum.splits if_splits)

lemma add_highlight_decode_error:
  "decode_error lib request Highlight = Some e \<Longrightarrow>
   add_highlight lib (GetString request ''highlight'' '''') m = Inl (''Invalid highlight JSON: '' @ e)"
  by (auto simp add: add_highlight_def error_of_def Let_def split: sum.splits if_splits)

lemma build_search_request_decode_error:
  assumes "\<forall>g \<in> set (earlier_fields f). decode_error lib request g = None"
    and "decode_error lib request f = Some e"
    and "f \<noteq> Query"
  shows "build_search_request lib query size' from' tth timeout
        (GetString request ''sort'' '''') (GetString request ''aggs'' '''')
        (GetString request ''_source'' '''') (GetString request ''highlight'' '''')
        = Inl (''Invalid '' @ field_label f @ '' JSON: '' @ e)"
proof (cases f)
  case Query
  with assms(3) show ?thesis by simp
next
  case Sort
  with assms(2) show ?thesis
    by (simp add: build_search_request_def add_sort_decode_error)
next
  case Aggs
  with assms(1) have "decode_error lib request Sort = None" by simp
  from add_sort_decode_ok [OF this] obtain m1 where
    "add_sort lib (GetString request ''sort'' '''')
       (initial_search_request query size' from' tth timeout) = Inr m1" by blast
  with Aggs assms(2) show ?thesis
    by (simp add: build_search_request_def add_aggs_decode_error)
next
  case Source
  with assms(1) have ok: "decode_error lib request Sort = None"
    "decode_error lib request Aggs = None" by simp_all
  from add_sort_decode_ok [OF ok(1)] obtain m1 where m1:
    "add_sort lib (GetString request ''sort'' '''')
       (initial_search_request query size' from' tth timeout) = Inr m1" by blast
  from add_aggs_decode_ok [OF ok(2)] obtain m2 where
    "add_aggs lib (GetString request ''aggs'' '''') m1 = Inr m2" by blast
  with m1 Source assms(2) show ?thesis
    by (simp add: build_search_request_def add_source_decode_error)
next
  case Highlight
  with assms(1) have ok: "decode_error lib request Sort = None"
    "decode_error lib request Aggs = None" "decode_error lib request Source = None"
    by simp_all
  from add_sort_decode_ok [OF ok(1)] obtain m1 where m1:
    "add_sort lib (GetString request ''sort'' '''')
       (initial_search_request query size' from' tth timeout) = Inr m1" by blast
  from add_aggs_decode_ok [OF ok(2)] obtain m2 where m2:
    "add_aggs lib (GetString request ''aggs'' '''') m1 = Inr m2" by blast
  from add_source_decode_ok [OF ok(3)] obtain m3 where
    "add_source lib (GetString request ''_source'' '''') m2 = Inr m3" by blast
  with m1 m2 Highlight assms(2) show ?thesis
    by (simp add: build_search_request_def add_highlight_decode_error)
qed

text \<open>
  Claim C3, as the code has it. In a search whose index is given and whose \<^verbatim>\<open>size\<close>
  and \<^verbatim>\<open>from\<close> pass the range checks, let \<open>f\<close> be the first of \<^verbatim>\<open>query\<close>, \<^verbatim>\<open>sort\<close>, \<^verbatim>\<open>aggs\<close>,
  \<^verbatim>\<open>_source\<close>, \<^verbatim>\<open>highlight\<close> whose text the decoder rejects. Then the whole search fails
  with the error result \<^verbatim>\<open>Invalid <name of f> JSON: <error of the decoder>\<close>, which names
  that field and carries the decoder's error, not the text that was sent, and the backend
  is not called. Nothing is assumed about the fields after \<open>f\<close>: whatever they hold, the
  outcome is this one.
\<close>

theorem C3_first_malformed_field_fails:
  assumes "RequireString request ''index'' = Inr index"
    and "validate_paging (GetInt request ''size'' 10) (GetInt request ''from'' 0) = None"
    and "\<forall>g \<in> set (earlier_fields f). decode_error lib request g = None"
    and "decode_error lib request f = Some e"
  shows "handleSearch lib h request =
           \<lparr>result = NewToolResultError (''Invalid '' @ field_label f @ '' JSON: '' @ e),
            calls = []\<rparr>"
proof (cases "f = Query")
  case True
  with assms(4) have "parse_query lib (GetString request ''query'' ''{}'') =
      Inl (''Invalid query JSON: '' @ e)"
    by (simp add: parse_query_decode_error)
  from handleSearch_parse_error [OF assms(1,2) this] True show ?thesis by simp
next
  case False
  then have "Query \<in> set (earlier_fields f)" by (cases f) simp_all
  with assms(3) have "decode_error lib request Query = None" by blast
  from parse_query_decode_ok [OF this] obtain query where
    q: "parse_query lib (GetString request ''query'' ''{}'') = Inr query" by blast
  show ?thesis
    by (rule handleSearch_build_error [OF assms(1,2) q])
       (rule build_search_request_decode_error [OF assms(3,4) False])
qed

text \<open>
  A truncated query is reported as such, whatever \<^verbatim>\<open>highlight\<close> holds; and a truncated
  \<^verbatim>\<open>highlight\<close> is reported when the four fields before it decode.
\<close>

theorem C3_first_malformed_field_fails_witness:
  "handleSearch sample_lib sample_handler
     (request_with [(''index'', StringArg ''logs-a''), (''query'', StringArg ''{\"a\":''),
        (''highlight'', StringArg ''['')]) =
     \<lparr>result = NewToolResultError ''Invalid query JSON: unexpected end of JSON input'',
      calls = []\<rparr> \<and>
   handleSearch sample_lib sample_handler
     (request_with [(''index'', StringArg ''logs-a''),
        (''query'', StringArg ''{\"match\":{\"a\":1}}''),
        (''sort'', StringArg ''[{\"ts\":\"desc\"}]''),
        (''aggs'', StringArg ''{\"by_level\":{\"terms\":{\"field\":\"level\"}}}''),
        (''_source'', StringArg ''[\"title\"]''),
        (''highlight'', StringArg ''['')]) =
     \<lparr>result = NewToolResultError ''Invalid highlight JSON: unexpected end of JSON input'',
      calls = []\<rparr>"
proof -
  let ?r1 = "request_with [(''index'', StringArg ''logs-a''), (''query'', StringArg ''{\"a\":''),
        (''highlight'', StringArg ''['')]"
  let ?r2 = "request_with [(''index'', StringArg ''logs-a''),
        (''query'', StringArg ''{\"match\":{\"a\":1}}''),
        (''sort'', StringArg ''[{\"ts\":\"desc\"}]''),
        (''aggs'', StringArg ''{\"by_level\":{\"terms\":{\"field\":\"level\"}}}''),
        (''_source'', StringArg ''[\"title\"]''),
        (''highlight'', StringArg ''['')]"
  have a1: "RequireString ?r1 ''index'' = Inr ''logs-a''"
    and a2: "RequireString ?r2 ''index'' = Inr ''logs-a''"
    by (simp_all add: request_with_def)
  have b1: "validate_paging (GetInt ?r1 ''size'' 10) (GetInt ?r1 ''from'' 0) = None"
    and b2: "validate_paging (GetInt ?r2 ''size'' 10) (GetInt ?r2 ''from'' 0) = None"
    by (simp_all add: request_with_def validate_paging_def word_sless_alt)
  have c1: "\<forall>g \<in> set (earlier_fields Query). decode_error sample_lib ?r1 g = None"
    by simp
  have c2: "\<forall>g \<in> set (earlier_fields Highlight). decode_error sample_lib ?r2 g = None"
    by (simp add: sample_defs error_of_def)
  have d1: "decode_error sample_lib ?r1 Query = Some ''unexpected end of JSON input''"
    by (simp add: sample_defs error_of_def)
  have d2: "decode_error sample_lib ?r2 Highlight = Some ''unexpected end of JSON input''"
    by (simp add: sample_defs error_of_def)
  from C3_first_malformed_field_fails [OF a1 b1 c1 d1, of sample_handler]
    C3_first_malformed_field_fails [OF a2 b2 c2 d2, of sample_handler]
  show ?thesis by simp
qed

text \<open>
  Against claim C3 as it was stated. For the truncated query \<^verbatim>\<open>{"a":\<close> the error result
  is the decoder's message and the text sent is no part of it; with \<^verbatim>\<open>size = -1\<close> the same
  query is never looked at and the error names \<^verbatim>\<open>size\<close>; and with a truncated \<^verbatim>\<open>sort\<close>
  beside it, the error names the query alone.
\<close>

theorem C3_input_not_echoed:
  "result (handleSearch sample_lib sample_handler
     (request_with [(''index'', StringArg ''logs-a''), (''query'', StringArg ''{\"a\":'')])) =
     NewToolResultError ''Invalid query JSON: unexpected end of JSON input'' \<and>
   \<not> sublist ''{\"a\":'' ''Invalid query JSON: unexpected end of JSON input'' \<and>
   result (handleSearch sample_lib sample_handler
     (request_with [(''index'', StringArg ''logs-a''), (''query'', StringArg ''{\"a\":''),
        (''size'', IntArg (- 1))])) =
     NewToolResultError ''Size parameter must be between 0 and 10000'' \<and>
   result (handleSearch sample_lib sample_handler
     (request_with [(''index'', StringArg ''logs-a''), (''query'', StringArg ''{\"a\":''),
        (''sort'', StringArg ''['')])) =
     NewToolResultError ''Invalid query JSON: unexpected end of JSON input''"
  by (simp add: sample_defs search_defs word_sless_alt Let_def sublist_Cons_right)

section \<open>Optional keys of the search request\<close>

lemma build_search_request_decoded:
  assumes "build_search_request lib query size' from' tth timeout so ag sr hl = Inr doc"
  shows "(so \<noteq> '''' \<longrightarrow> (\<exists>v. Unmarshal_any lib so = Inr v)) \<and>
         (ag \<noteq> '''' \<longrightarrow> (\<exists>v. Unmarshal_map lib ag = Inr v)) \<and>
         (sr \<noteq> '''' \<longrightarrow> (\<exists>v. Unmarshal_any lib sr = Inr v)) \<and>
         (hl \<noteq> '''' \<longrightarrow> (\<exists>v. Unmarshal_map lib hl = Inr v))"
proof -
  from assms obtain m1 m2 m3 where
    s: "add_sort lib so (initial_search_request query size' from' tth timeout) = Inr m1"
       "add_aggs lib ag m1 = Inr m2"
       "add_source lib sr m2 = Inr m3" "add_highlight lib hl m3 = Inr doc"
    by (rule build_search_request_steps)
  from s(1) have 1: "so \<noteq> '''' \<longrightarrow> (\<exists>v. Unmarshal_any lib so = Inr v)"
    by (auto simp add: add_sort_def split: sum.splits if_splits)
  from s(2) have 2: "ag \<noteq> '''' \<longrightarrow> (\<exists>v. Unmarshal_map lib ag = Inr v)"
    by (auto simp add: add_aggs_def split: sum.splits if_splits)
  from s(3) have 3: "sr \<noteq> '''' \<longrightarrow> (\<exists>v. Unmarshal_any lib sr = Inr v)"
    by (auto simp add: add_source_def split: sum.splits if_splits)
  from s(4) have 4: "hl \<noteq> '''' \<longrightarrow> (\<exists>v. Unmarshal_map lib hl = Inr v)"
    by (auto simp add: add_highlight_def split: sum.splits if_splits)
  from 1 2 3 4 show ?thesis by blast
qed

lemma build_search_request_optional_keys:
  assumes "build_search_request lib query size' from' tth timeout so ag sr hl = Inr doc"
  shows "(''sort'' \<in> dom (map_of doc)) = (so \<noteq> '''')"
    and "(''aggs'' \<in> dom (map_of doc)) = (ag \<noteq> '''')"
    and "(''_source'' \<in> dom (map_of doc)) = (sr \<noteq> '''')"
    and "(''highlight'' \<in> dom (map_of doc)) = (hl \<noteq> '''')"
    and "(''timeout'' \<in> dom (map_of doc)) = (timeout \<noteq> '''')"
  using build_search_request_decoded [OF assms]
  by (auto simp add: dom_def build_search_request_map_of [OF assms])

lemma build_search_request_plain:
  "build_search_request lib query size' from' True '''' '''' '''' '''' '''' =
     Inr [(''query'', VMap query), (''size'', VInt size'), (''from'', VInt from'),
          (''track_total_hits'', VBool True)]"
  by (simp add: build_search_request_def initial_search_request_def add_sort_def add_aggs_def
        add_source_def add_highlight_def)

text \<open>
  When the decoder rejects none of the optional fields, the request is assembled; and an
  assembled request is sent exactly when it can be marshalled.
\<close>

lemma add_highlight_decode_ok:
  "decode_error lib request Highlight = None \<Longrightarrow>
   \<exists>m'. add_highlight lib (GetString request ''highlight'' '''') m = Inr m'"
  by (auto simp add: add_highlight_def error_of_def Let_def split: sum.splits if_splits)

lemma build_search_request_decode_ok:
  assumes "decode_error lib request Sort = None" "decode_error lib request Aggs = None"
    "decode_error lib request Source = None" "decode_error lib request Highlight = None"
  shows "\<exists>doc. build_search_request lib query size' from' tth timeout
        (GetString request ''sort'' '''') (GetString request ''aggs'' '''')
        (GetString request ''_source'' '''') (GetString request ''highlight'' '''') = Inr doc"
proof -
  from add_sort_decode_ok [OF assms(1)] obtain m1 where m1:
    "add_sort lib (GetString request ''sort'' '''')
       (initial_search_request query size' from' tth timeout) = Inr m1" by blast
  from add_aggs_decode_ok [OF assms(2)] obtain m2 where m2:
    "add_aggs lib (GetString request ''aggs'' '''') m1 = Inr m2" by blast
  from add_source_decode_ok [OF assms(3)] obtain m3 where m3:
    "add_source lib (GetString request ''_source'' '''') m2 = Inr m3" by blast
  from add_highlight_decode_ok [OF assms(4)] obtain m4 where m4:
    "add_highlight lib (GetString request ''highlight'' '''') m3 = Inr m4" by blast
  from m1 m2 m3 m4 show ?thesis
    by (simp add: build_search_request_def)
qed

lemma handleSearch_built:
  assumes "RequireString request ''index'' = Inr index"
    and "validate_paging (GetInt request ''size'' 10) (GetInt request ''from'' 0) = None"
    and "parse_query lib (GetString request ''query'' ''{}'') = Inr query"
    and "build_search_request lib query (GetInt request ''size'' 10) (GetInt request ''from'' 0)
        (GetBool request ''track_total_hits'' True) (GetString request ''timeout'' '''')
        (GetString request ''sort'' '''') (GetString request ''aggs'' '''')
        (GetString request ''_source'' '''') (GetString request ''highlight'' '''') = Inr doc"
  shows "calls (handleSearch lib h request) =
     (case Marshal lib (VMap (Some doc)) of
        Inl err \<Rightarrow> []
      | Inr body \<Rightarrow>
          [Search_call (search_options index body (GetBool request ''track_total_hits'' True)
             (GetString request ''timeout'' ''''))])"
  using assms by (simp add: handleSearch_def Let_def no_call_def split: sum.splits)

lemma handleSearch_valid:
  assumes idx: "RequireString request ''index'' = Inr index"
    and v: "validate_paging (GetInt request ''size'' 10) (GetInt request ''from'' 0) = None"
    and ok: "\<forall>f \<in> set [Query, Sort, Aggs, Source, Highlight]. decode_error lib request f = None"
  shows "case parse_query lib (GetString request ''query'' ''{}'') of
       Inl msg \<Rightarrow> False
     | Inr query \<Rightarrow>
    (case build_search_request lib query (GetInt request ''size'' 10) (GetInt request ''from'' 0)
        (GetBool request ''track_total_hits'' True) (GetString request ''timeout'' '''')
        (GetString request ''sort'' '''') (GetString request ''aggs'' '''')
        (GetString request ''_source'' '''') (GetString request ''highlight'' '''') of
       Inl msg \<Rightarrow> False
     | Inr doc \<Rightarrow>
        calls (handleSearch lib h request) =
          (case Marshal lib (VMap (Some doc)) of
             Inl err \<Rightarrow> []
           | Inr body \<Rightarrow>
               [Search_call (search_options index body (GetBool request ''track_total_hits'' True)
                  (GetString request ''timeout'' ''''))]) \<and>
        map_of doc ''query'' = Some (VMap query) \<and>
        map_of doc ''size'' = Some (VInt (GetInt request ''size'' 10)) \<and>
        map_of doc ''from'' = Some (VInt (GetInt request ''from'' 0)) \<and>
        map_of doc ''sort'' =
          (if GetString request ''sort'' '''' = '''' then None
           else (case Unmarshal_any lib (GetString request ''sort'' '''') of
                   Inr v \<Rightarrow> Some v | Inl e \<Rightarrow> None)) \<and>
        map_of doc ''aggs'' =
          (if GetString request ''aggs'' '''' = '''' then None
           else (case Unmarshal_map lib (GetString request ''aggs'' '''') of
                   Inr v \<Rightarrow> Some (VMap v) | Inl e \<Rightarrow> None)) \<and>
        map_of doc ''_source'' =
          (if GetString request ''_source'' '''' = '''' then None
           else (case Unmarshal_any lib (GetString request ''_source'' '''') of
                   Inr v \<Rightarrow> Some v | Inl e \<Rightarrow> None)) \<and>
        map_of doc ''highlight'' =
          (if GetString request ''highlight'' '''' = '''' then None
           else (case Unmarshal_map lib (GetString request ''highlight'' '''') of
                   Inr v \<Rightarrow> Some (VMap v) | Inl e \<Rightarrow> None)) \<and>
        map_of doc ''timeout'' =
          (if GetString request ''timeout'' '''' = '''' then None
           else Some (VString (GetString request ''timeout'' ''''))) \<and>
        (''sort'' \<in> dom (map_of doc)) = (GetString request ''sort'' '''' \<noteq> '''') \<and>
        (''aggs'' \<in> dom (map_of doc)) = (GetString request ''aggs'' '''' \<noteq> '''') \<and>
        (''_source'' \<in> dom (map_of doc)) = (GetString request ''_source'' '''' \<noteq> '''') \<and>
        (''highlight'' \<in> dom (map_of doc)) = (GetString request ''highlight'' '''' \<noteq> '''') \<and>
        (''timeout'' \<in> dom (map_of doc)) = (GetString request ''timeout'' '''' \<noteq> ''''))"
proof -
  from ok have d: "decode_error lib request Query = None" "decode_error lib request Sort = None"
    "decode_error lib request Aggs = None" "decode_error lib request Source = None"
    "decode_error lib request Highlight = None"
    by simp_all
  from parse_query_decode_ok [OF d(1)] obtain query where
    pq: "parse_query lib (GetString request ''query'' ''{}'') = Inr query" by blast
  from build_search_request_decode_ok [OF d(2-5)] obtain doc where
    b: "build_search_request lib query (GetInt request ''size'' 10) (GetInt request ''from'' 0)
        (GetBool request ''track_total_hits'' True) (GetString request ''timeout'' '''')
        (GetString request ''sort'' '''') (GetString request ''aggs'' '''')
        (GetString request ''_source'' '''') (GetString request ''highlight'' '''') = Inr doc"
    by blast
  have k: "map_of doc ''query'' = Some (VMap query)"
    "map_of doc ''size'' = Some (VInt (GetInt request ''size'' 10))"
    "map_of doc ''from'' = Some (VInt (GetInt request ''from'' 0))"
    "map_of doc ''sort'' =
          (if GetString request ''sort'' '''' = '''' then None
           else (case Unmarshal_any lib (GetString request ''sort'' '''') of
                   Inr v \<Rightarrow> Some v | Inl e \<Rightarrow> None))"
    "map_of doc ''aggs'' =
          (if GetString request ''aggs'' '''' = '''' then None
           else (case Unmarshal_map lib (GetString request ''aggs'' '''') of
                   Inr v \<Rightarrow> Some (VMap v) | Inl e \<Rightarrow> None))"
    "map_of doc ''_source'' =
          (if GetString request ''_source'' '''' = '''' then None
           else (case Unmarshal_any lib (GetString request ''_source'' '''') of
                   Inr v \<Rightarrow> Some v | Inl e \<Rightarrow> None))"
    "map_of doc ''highlight'' =
          (if GetString request ''highlight'' '''' = '''' then None
           else (case Unmarshal_map lib (GetString request ''highlight'' '''') of
                   Inr v \<Rightarrow> Some (VMap v) | Inl e \<Rightarrow> None))"
    "map_of doc ''timeout'' =
          (if GetString request ''timeout'' '''' = '''' then None
           else Some (VString (GetString request ''timeout'' '''')))"
    unfolding build_search_request_map_of [OF b] by simp_all
  show ?thesis
    unfolding pq b sum.case
    using handleSearch_built [OF idx v pq b, of h] k build_search_request_optional_keys [OF b]
    by (intro conjI)
qed

text \<open>
  Claim C4. When the index is given, \<^verbatim>\<open>size\<close> and \<^verbatim>\<open>from\<close> pass the range checks and the
  decoder rejects none of the five JSON arguments, the request is assembled, and the
  search is sent with its marshalled form whenever the marshalling succeeds. In that
  request \<^verbatim>\<open>query\<close>, \<^verbatim>\<open>size\<close> and \<^verbatim>\<open>from\<close> hold the parsed query and the two numbers, and
  each of \<^verbatim>\<open>sort\<close>, \<^verbatim>\<open>aggs\<close>, \<^verbatim>\<open>_source\<close>, \<^verbatim>\<open>highlight\<close>, \<^verbatim>\<open>timeout\<close> is a key exactly when the argument
  of that name is a non-empty string, and then holds what the decoder made of that string
  (for \<^verbatim>\<open>timeout\<close>, the string itself): an optional that was not supplied is no key at all.
  The same holds of the keys of every request that reached the backend. And the search
  with the arguments \<^verbatim>\<open>index = logs-*\<close>, \<^verbatim>\<open>query = {"match":{"a":1}}\<close>, \<^verbatim>\<open>size = 5\<close> marshals the
  request with the parsed query under \<^verbatim>\<open>query\<close>, 5 under \<^verbatim>\<open>size\<close>, the defaults of \<^verbatim>\<open>from\<close> and
  \<^verbatim>\<open>track_total_hits\<close>, and no other key, and sends it when the marshalling succeeds.
\<close>

theorem C4_optional_keys_iff_supplied:
  \<open>(RequireString request ''index'' = Inr index \<and>
    validate_paging (GetInt request ''size'' 10) (GetInt request ''from'' 0) = None \<and>
    (\<forall>f \<in> set [Query, Sort, Aggs, Source, Highlight]. decode_error lib request f = None) \<longrightarrow>
    (case parse_query lib (GetString request ''query'' ''{}'') of
       Inl msg \<Rightarrow> False
     | Inr query \<Rightarrow>
    (case build_search_request lib query (GetInt request ''size'' 10) (GetInt request ''from'' 0)
        (GetBool request ''track_total_hits'' True) (GetString request ''timeout'' '''')
        (GetString request ''sort'' '''') (GetString request ''aggs'' '''')
        (GetString request ''_source'' '''') (GetString request ''highlight'' '''') of
       Inl msg \<Rightarrow> False
     | Inr doc \<Rightarrow>
        calls (handleSearch lib h request) =
          (case Marshal lib (VMap (Some doc)) of
             Inl err \<Rightarrow> []
           | Inr body \<Rightarrow>
               [Search_call (search_options index body (GetBool request ''track_total_hits'' True)
                  (GetString request ''timeout'' ''''))]) \<and>
        map_of doc ''query'' = Some (VMap query) \<and>
        map_of doc ''size'' = Some (VInt (GetInt request ''size'' 10)) \<and>
        map_of doc ''from'' = Some (VInt (GetInt request ''from'' 0)) \<and>
        map_of doc ''sort'' =
          (if GetString request ''sort'' '''' = '''' then None
           else (case Unmarshal_any lib (GetString request ''sort'' '''') of
                   Inr v \<Rightarrow> Some v | Inl e \<Rightarrow> None)) \<and>
        map_of doc ''aggs'' =
          (if GetString request ''aggs'' '''' = '''' then None
           else (case Unmarshal_map lib (GetString request ''aggs'' '''') of
                   Inr v \<Rightarrow> Some (VMap v) | Inl e \<Rightarrow> None)) \<and>
        map_of doc ''_source'' =
          (if GetString request ''_source'' '''' = '''' then None
           else (case Unmarshal_any lib (GetString request ''_source'' '''') of
                   Inr v \<Rightarrow> Some v | Inl e \<Rightarrow> None)) \<and>
        map_of doc ''highlight'' =
          (if GetString request ''highlight'' '''' = '''' then None
           else (case Unmarshal_map lib (GetString request ''highlight'' '''') of
                   Inr v \<Rightarrow> Some (VMap v) | Inl e \<Rightarrow> None)) \<and>
        map_of doc ''timeout'' =
          (if GetString request ''timeout'' '''' = '''' then None
           else Some (VString (GetString request ''timeout'' ''''))) \<and>
        (''sort'' \<in> dom (map_of doc)) = (GetString request ''sort'' '''' \<noteq> '''') \<and>
        (''aggs'' \<in> dom (map_of doc)) = (GetString request ''aggs'' '''' \<noteq> '''') \<and>
        (''_source'' \<in> dom (map_of doc)) = (GetString request ''_source'' '''' \<noteq> '''') \<and>
        (''highlight'' \<in> dom (map_of doc)) = (GetString request ''highlight'' '''' \<noteq> '''') \<and>
        (''timeout'' \<in> dom (map_of doc)) = (GetString request ''timeout'' '''' \<noteq> '''')))) \<and>
   (calls (handleSearch lib' h' request') \<noteq> [] \<longrightarrow>
     (\<exists>index doc body.
        calls (handleSearch lib' h' request') =
          [Search_call (search_options index body (GetBool request' ''track_total_hits'' True)
             (GetString request' ''timeout'' ''''))] \<and>
        Marshal lib' (VMap (Some doc)) = Inr body \<and>
        (''sort'' \<in> dom (map_of doc)) = (GetString request' ''sort'' '''' \<noteq> '''') \<and>
        (''aggs'' \<in> dom (map_of doc)) = (GetString request' ''aggs'' '''' \<noteq> '''') \<and>
        (''_source'' \<in> dom (map_of doc)) = (GetString request' ''_source'' '''' \<noteq> '''') \<and>
        (''highlight'' \<in> dom (map_of doc)) = (GetString request' ''highlight'' '''' \<noteq> '''') \<and>
        (''timeout'' \<in> dom (map_of doc)) = (GetString request' ''timeout'' '''' \<noteq> ''''))) \<and>
   (Unmarshal_map lib'' ''{"match":{"a":1}}'' = Inr (Some parsed) \<and> parsed \<noteq> [] \<longrightarrow>
      calls (handleSearch lib'' h''
        (request_with [(''index'', StringArg ''logs-*''),
                       (''query'', StringArg ''{"match":{"a":1}}''),
                       (''size'', IntArg 5)])) =
        (case Marshal lib'' (VMap (Some
                [(''query'', VMap (Some parsed)), (''size'', VInt 5), (''from'', VInt 0),
                 (''track_total_hits'', VBool True)])) of
           Inl err \<Rightarrow> []
         | Inr body \<Rightarrow> [Search_call (search_options ''logs-*'' body True '''')]))\<close>
proof (intro conjI impI)
  assume "RequireString request ''index'' = Inr index \<and>
    validate_paging (GetInt request ''size'' 10) (GetInt request ''from'' 0) = None \<and>
    (\<forall>f \<in> set [Query, Sort, Aggs, Source, Highlight]. decode_error lib request f = None)"
  then have a: "RequireString request ''index'' = Inr index"
    "validate_paging (GetInt request ''size'' 10) (GetInt request ''from'' 0) = None"
    "\<forall>f \<in> set [Query, Sort, Aggs, Source, Highlight]. decode_error lib request f = None"
    by blast+
  show "case parse_query lib (GetString request ''query'' ''{}'') of
       Inl msg \<Rightarrow> False
     | Inr query \<Rightarrow>
    (case build_search_request lib query (GetInt request ''size'' 10) (GetInt request ''from'' 0)
        (GetBool request ''track_total_hits'' True) (GetString request ''timeout'' '''')
        (GetString request ''sort'' '''') (GetString request ''aggs'' '''')
        (GetString request ''_source'' '''') (GetString request ''highlight'' '''') of
       Inl msg \<Rightarrow> False
     | Inr doc \<Rightarrow>
        calls (handleSearch lib h request) =
          (case Marshal lib (VMap (Some doc)) of
             Inl err \<Rightarrow> []
           | Inr body \<Rightarrow>
               [Search_call (search_options index body (GetBool request ''track_total_hits'' True)
                  (GetString request ''timeout'' ''''))]) \<and>
        map_of doc ''query'' = Some (VMap query) \<and>
        map_of doc ''size'' = Some (VInt (GetInt request ''size'' 10)) \<and>
        map_of doc ''from'' = Some (VInt (GetInt request ''from'' 0)) \<and>
        map_of doc ''sort'' =
          (if GetString request ''sort'' '''' = '''' then None
           else (case Unmarshal_any lib (GetString request ''sort'' '''') of
                   Inr v \<Rightarrow> Some v | Inl e \<Rightarrow> None)) \<and>
        map_of doc ''aggs'' =
          (if GetString request ''aggs'' '''' = '''' then None
           else (case Unmarshal_map lib (GetString request ''aggs'' '''') of
                   Inr v \<Rightarrow> Some (VMap v) | Inl e \<Rightarrow> None)) \<and>
        map_of doc ''_source'' =
          (if GetString request ''_source'' '''' = '''' then None
           else (case Unmarshal_any lib (GetString request ''_source'' '''') of
                   Inr v \<Rightarrow> Some v | Inl e \<Rightarrow> None)) \<and>
        map_of doc ''highlight'' =
          (if GetString request ''highlight'' '''' = '''' then None
           else (case Unmarshal_map lib (GetString request ''highlight'' '''') of
                   Inr v \<Rightarrow> Some (VMap v) | Inl e \<Rightarrow> None)) \<and>
        map_of doc ''timeout'' =
          (if GetString request ''timeout'' '''' = '''' then None
           else Some (VString (GetString request ''timeout'' ''''))) \<and>
        (''sort'' \<in> dom (map_of doc)) = (GetString request ''sort'' '''' \<noteq> '''') \<and>
        (''aggs'' \<in> dom (map_of doc)) = (GetString request ''aggs'' '''' \<noteq> '''') \<and>
        (''_source'' \<in> dom (map_of doc)) = (GetString request ''_source'' '''' \<noteq> '''') \<and>
        (''highlight'' \<in> dom (map_of doc)) = (GetString request ''highlight'' '''' \<noteq> '''') \<and>
        (''timeout'' \<in> dom (map_of doc)) = (GetString request ''timeout'' '''' \<noteq> ''''))"
    by (rule handleSearch_valid [OF a])
next
  assume "calls (handleSearch lib' h' request') \<noteq> []"
  with handleSearch_calls [of lib' h' request'] obtain index query doc body where
    b: "build_search_request lib' query (GetInt request' ''size'' 10) (GetInt request' ''from'' 0)
        (GetBool request' ''track_total_hits'' True) (GetString request' ''timeout'' '''')
        (GetString request' ''sort'' '''') (GetString request' ''aggs'' '''')
        (GetString request' ''_source'' '''') (GetString request' ''highlight'' '''') = Inr doc" and
    m: "Marshal lib' (VMap (Some doc)) = Inr body" and
    c: "calls (handleSearch lib' h' request') =
        [Search_call (search_options index body (GetBool request' ''track_total_hits'' True)
           (GetString request' ''timeout'' ''''))]"
    by blast
  from m c build_search_request_optional_keys [OF b]
  show "\<exists>index doc body.
        calls (handleSearch lib' h' request') =
          [Search_call (search_options index body (GetBool request' ''track_total_hits'' True)
             (GetString request' ''timeout'' ''''))] \<and>
        Marshal lib' (VMap (Some doc)) = Inr body \<and>
        (''sort'' \<in> dom (map_of doc)) = (GetString request' ''sort'' '''' \<noteq> '''') \<and>
        (''aggs'' \<in> dom (map_of doc)) = (GetString request' ''aggs'' '''' \<noteq> '''') \<and>
        (''_source'' \<in> dom (map_of doc)) = (GetString request' ''_source'' '''' \<noteq> '''') \<and>
        (''highlight'' \<in> dom (map_of doc)) = (GetString request' ''highlight'' '''' \<noteq> '''') \<and>
        (''timeout'' \<in> dom (map_of doc)) = (GetString request' ''timeout'' '''' \<noteq> '''')"
    by blast
next
  let ?q = \<open>''{"match":{"a":1}}''\<close>
  let ?r = "request_with [(''index'', StringArg ''logs-*''), (''query'', StringArg ?q),
                       (''size'', IntArg 5)]"
  assume a: "Unmarshal_map lib'' ?q = Inr (Some parsed) \<and> parsed \<noteq> []"
  then have pq: "parse_query lib'' ?q = Inr (Some parsed)"
    by (auto simp add: parse_query_def len_map_def)
  have v: "validate_paging 5 0 = None"
    by (simp add: validate_paging_def word_sless_alt)
  show "calls (handleSearch lib'' h'' ?r) =
        (case Marshal lib'' (VMap (Some
                [(''query'', VMap (Some parsed)), (''size'', VInt 5), (''from'', VInt 0),
                 (''track_total_hits'', VBool True)])) of
           Inl err \<Rightarrow> []
         | Inr body \<Rightarrow> [Search_call (search_options ''logs-*'' body True '''')])"
    by (simp add: handleSearch_def request_with_def Let_def v pq build_search_request_plain
          no_call_def split: sum.splits)
qed

text \<open>
  A search with all five optionals and a query, with the request it assembles written
  out; a search with \<^verbatim>\<open>sort\<close> and \<^verbatim>\<open>aggs\<close> and without the other three; and the search of
  the claim's example with the sample decoder.
\<close>

theorem C4_optional_keys_iff_supplied_witness:
  \<open>RequireString (request_with [(''index'', StringArg ''logs-a''),
         (''query'', StringArg ''{"match":{"a":1}}''), (''size'', IntArg 5),
         (''sort'', StringArg ''[{"ts":"desc"}]''),
         (''aggs'', StringArg ''{"by_level":{"terms":{"field":"level"}}}''),
         (''_source'', StringArg ''["title"]''),
         (''highlight'', StringArg ''{"fields":{"title":{}}}''),
         (''timeout'', StringArg ''5s'')]) ''index'' = Inr ''logs-a'' \<and>
   build_search_request sample_lib (Some [(''match'', VMap (Some [(''a'', VFloat 1)]))]) 5 0 True
       ''5s'' ''[{"ts":"desc"}]'' ''{"by_level":{"terms":{"field":"level"}}}'' ''["title"]''
       ''{"fields":{"title":{}}}'' =
     Inr [(''query'', VMap (Some [(''match'', VMap (Some [(''a'', VFloat 1)]))])),
          (''size'', VInt 5), (''from'', VInt 0), (''track_total_hits'', VBool True),
          (''timeout'', VString ''5s''),
          (''sort'', VSlice (Some [VMap (Some [(''ts'', VString ''desc'')])])),
          (''aggs'', VMap (Some [(''by_level'',
               VMap (Some [(''terms'', VMap (Some [(''field'', VString ''level'')]))]))])),
          (''_source'', VSlice (Some [VString ''title''])),
          (''highlight'', VMap (Some [(''fields'', VMap (Some [(''title'', VMap (Some []))]))]))] \<and>
   calls (handleSearch sample_lib sample_handler
      (request_with [(''index'', StringArg ''logs-a''),
         (''query'', StringArg ''{"match":{"a":1}}''), (''size'', IntArg 5),
         (''sort'', StringArg ''[{"ts":"desc"}]''),
         (''aggs'', StringArg ''{"by_level":{"terms":{"field":"level"}}}''),
         (''_source'', StringArg ''["title"]''),
         (''highlight'', StringArg ''{"fields":{"title":{}}}''),
         (''timeout'', StringArg ''5s'')])) =
     [Search_call [Search_WithIndex ''logs-a'', Search_WithBody ''(json)'',
        Search_WithTrackTotalHits True, Search_WithPretty, Search_WithTimeout ''5s'']] \<and>
   calls (handleSearch sample_lib sample_handler
      (request_with [(''index'', StringArg ''logs-a''),
         (''sort'', StringArg ''[{"ts":"desc"}]''),
         (''aggs'', StringArg ''{"by_level":{"terms":{"field":"level"}}}'')])) \<noteq> [] \<and>
   (\<exists>index doc body.
      calls (handleSearch sample_lib sample_handler
        (request_with [(''index'', StringArg ''logs-a''),
           (''sort'', StringArg ''[{"ts":"desc"}]''),
           (''aggs'', StringArg ''{"by_level":{"terms":{"field":"level"}}}'')])) =
        [Search_call (search_options index body True '''')] \<and>
      Marshal sample_lib (VMap (Some doc)) = Inr body \<and>
      ''sort'' \<in> dom (map_of doc) \<and> ''aggs'' \<in> dom (map_of doc) \<and>
      ''_source'' \<notin> dom (map_of doc) \<and> ''highlight'' \<notin> dom (map_of doc) \<and>
      ''timeout'' \<notin> dom (map_of doc)) \<and>
   Unmarshal_map sample_lib ''{"match":{"a":1}}'' =
      Inr (Some [(''match'', VMap (Some [(''a'', VFloat 1)]))]) \<and>
   calls (handleSearch sample_lib sample_handler
      (request_with [(''index'', StringArg ''logs-*''),
                     (''query'', StringArg ''{"match":{"a":1}}''),
                     (''size'', IntArg 5)])) =
     [Search_call [Search_WithIndex ''logs-*'', Search_WithBody ''(json)'',
        Search_WithTrackTotalHits True, Search_WithPretty]]\<close>
proof -
  let ?ra = \<open>request_with [(''index'', StringArg ''logs-a''),
         (''query'', StringArg ''{"match":{"a":1}}''), (''size'', IntArg 5),
         (''sort'', StringArg ''[{"ts":"desc"}]''),
         (''aggs'', StringArg ''{"by_level":{"terms":{"field":"level"}}}''),
         (''_source'', StringArg ''["title"]''),
         (''highlight'', StringArg ''{"fields":{"title":{}}}''),
         (''timeout'', StringArg ''5s'')]\<close>
  let ?r = \<open>request_with [(''index'', StringArg ''logs-a''),
         (''sort'', StringArg ''[{"ts":"desc"}]''),
         (''aggs'', StringArg ''{"by_level":{"terms":{"field":"level"}}}'')]\<close>
  have a: "RequireString ?ra ''index'' = Inr ''logs-a'' \<and>
    validate_paging (GetInt ?ra ''size'' 10) (GetInt ?ra ''from'' 0) = None \<and>
    (\<forall>f \<in> set [Query, Sort, Aggs, Source, Highlight]. decode_error sample_lib ?ra f = None)"
    by (simp add: sample_defs error_of_def validate_paging_def word_sless_alt)
  have ga: \<open>GetString ?ra ''query'' ''{}'' = ''{"match":{"a":1}}''\<close>
    \<open>GetInt ?ra ''size'' 10 = 5\<close> \<open>GetInt ?ra ''from'' 0 = 0\<close>
    \<open>GetBool ?ra ''track_total_hits'' True = True\<close> \<open>GetString ?ra ''timeout'' '''' = ''5s''\<close>
    \<open>GetString ?ra ''sort'' '''' = ''[{"ts":"desc"}]''\<close>
    \<open>GetString ?ra ''aggs'' '''' = ''{"by_level":{"terms":{"field":"level"}}}''\<close>
    \<open>GetString ?ra ''_source'' '''' = ''["title"]''\<close>
    \<open>GetString ?ra ''highlight'' '''' = ''{"fields":{"title":{}}}''\<close>
    by (simp_all add: request_with_def)
  have pa: \<open>parse_query sample_lib ''{"match":{"a":1}}'' =
      Inr (Some [(''match'', VMap (Some [(''a'', VFloat 1)]))])\<close>
    by (simp add: parse_query_def sample_defs len_map_def)
  have ba: \<open>build_search_request sample_lib (Some [(''match'', VMap (Some [(''a'', VFloat 1)]))]) 5 0 True
       ''5s'' ''[{"ts":"desc"}]'' ''{"by_level":{"terms":{"field":"level"}}}'' ''["title"]''
       ''{"fields":{"title":{}}}'' =
     Inr [(''query'', VMap (Some [(''match'', VMap (Some [(''a'', VFloat 1)]))])),
          (''size'', VInt 5), (''from'', VInt 0), (''track_total_hits'', VBool True),
          (''timeout'', VString ''5s''),
          (''sort'', VSlice (Some [VMap (Some [(''ts'', VString ''desc'')])])),
          (''aggs'', VMap (Some [(''by_level'',
               VMap (Some [(''terms'', VMap (Some [(''field'', VString ''level'')]))]))])),
          (''_source'', VSlice (Some [VString ''title''])),
          (''highlight'', VMap (Some [(''fields'', VMap (Some [(''title'', VMap (Some []))]))]))]\<close>
    by (simp add: build_search_request_def initial_search_request_def add_sort_def add_aggs_def
          add_source_def add_highlight_def sample_defs)
  have d1: "calls (handleSearch sample_lib sample_handler ?r) \<noteq> []"
    by (simp add: sample_defs search_defs word_sless_alt Let_def)
  have d2: \<open>Unmarshal_map sample_lib ''{"match":{"a":1}}'' =
      Inr (Some [(''match'', VMap (Some [(''a'', VFloat 1)]))]) \<and>
      [(''match'', VMap (Some [(''a'', VFloat 1)]))] \<noteq> []\<close>
    by (simp add: sample_defs)
  have g: \<open>GetBool ?r ''track_total_hits'' True = True\<close> \<open>GetString ?r ''timeout'' '''' = ''''\<close>
    \<open>GetString ?r ''sort'' '''' \<noteq> ''''\<close> \<open>GetString ?r ''aggs'' '''' \<noteq> ''''\<close>
    \<open>GetString ?r ''_source'' '''' = ''''\<close> \<open>GetString ?r ''highlight'' '''' = ''''\<close>
    by (simp_all add: request_with_def)
  have m: "\<And>v. Marshal sample_lib v = Inr ''(json)''"
    by (simp add: Marshal_def sample_lib_def)
  from C4_optional_keys_iff_supplied [where lib = sample_lib and h = sample_handler
      and request = ?ra and index = "''logs-a''"
      and lib' = sample_lib and h' = sample_handler and request' = ?r
      and lib'' = sample_lib and h'' = sample_handler
      and parsed = "[(''match'', VMap (Some [(''a'', VFloat 1)]))]"] a d1 d2
  show ?thesis
    by (simp add: ga pa ba g m search_options_def)
qed

section \<open>The result of a search\<close>

lemma search_result_map_of:
  "map_of (search_result index sr from' size') k =
     (if k = ''aggregations'' then
        (if 0 < len_map (Aggregations sr) then Some (VMap (Aggregations sr)) else None)
      else map_of
        [(''index'', VString index),
         (''took'', VInt (Took sr)),
         (''timed_out'', VBool (TimedOut sr)),
         (''total_hits'', VInt (Value (Total (Hits sr)))),
         (''max_score'', VFloatPtr (MaxScore (Hits sr))),
         (''hits'', VSlice (map_option (map VMap) (HitsHits (Hits sr)))),
         (''shards'', VMap (Shards sr)),
         (''from'', VInt from'),
         (''size'', VInt size')] k)"
proof (cases "0 < len_map (Aggregations sr)")
  case True
  then have "Aggregations sr \<noteq> None"
    by (cases "Aggregations sr") (simp_all add: len_map_def)
  with True show ?thesis
    unfolding search_result_def Let_def
    by (simp only: if_True simp_thms update_conv' fun_upd_apply)
next
  case False
  then show ?thesis
    unfolding search_result_def Let_def
    by (simp only: if_False simp_thms) simp
qed


text \<open>What a search returns once the reply of the backend was decoded.\<close>

lemma handleSearch_decoded:
  assumes "RequireString request ''index'' = Inr index"
    and "calls (handleSearch lib h request) = [Search_call opts]"
    and "Search (client h) opts = Decoded sr"
  shows "result (handleSearch lib h request) =
     (case Marshal lib (VMap (Some
             (search_result index sr (GetInt request ''from'' 0) (GetInt request ''size'' 10)))) of
        Inl err \<Rightarrow> NewToolResultError ''Failed to marshal result to JSON''
      | Inr jsonBytes \<Rightarrow> NewToolResultText jsonBytes)"
proof -
  from handleSearch_calls [of lib h request] assms(1,2) obtain query doc body where
    v: "validate_paging (GetInt request ''size'' 10) (GetInt request ''from'' 0) = None" and
    pq: "parse_query lib (GetString request ''query'' ''{}'') = Inr query" and
    b: "build_search_request lib query (GetInt request ''size'' 10) (GetInt request ''from'' 0)
        (GetBool request ''track_total_hits'' True) (GetString request ''timeout'' [])
        (GetString request ''sort'' []) (GetString request ''aggs'' [])
        (GetString request ''_source'' []) (GetString request ''highlight'' []) = Inr doc" and
    m: "Marshal lib (VMap (Some doc)) = Inr body" and
    c: "opts = search_options index body (GetBool request ''track_total_hits'' True)
           (GetString request ''timeout'' [])"
    by auto
  show ?thesis
    using assms(3) unfolding c
    by (simp add: handleSearch_def Let_def assms(1) v pq b m)
qed

lemma search_result_aggregations:
  "map_of (search_result index sr from' size') ''aggregations'' =
     (if 1 \<le> len_map (Aggregations sr) then Some (VMap (Aggregations sr)) else None)"
  unfolding search_result_map_of by (simp add: Suc_le_eq)

lemma search_result_passed:
  "map_of (search_result index sr from' size') ''hits'' =
     Some (VSlice (map_option (map VMap) (HitsHits (Hits sr))))"
  "map_of (search_result index sr from' size') ''max_score'' =
     Some (VFloatPtr (MaxScore (Hits sr)))"
  "map_of (search_result index sr from' size') ''from'' = Some (VInt from')"
  "map_of (search_result index sr from' size') ''size'' = Some (VInt size')"
  unfolding search_result_map_of by simp_all

text \<open>
  Claim C5. For a decoded reply of the backend, the map that the search marshals as its
  result has the key \<^verbatim>\<open>aggregations\<close> exactly when the reply has at least one aggregation,
  and then the value is the reply's aggregations as they are; a reply with none, be the
  map nil or empty, gives a result without the key.
\<close>

theorem C5_aggregations_iff_present:
  assumes "RequireString request ''index'' = Inr index"
    and "calls (handleSearch lib h request) = [Search_call opts]"
    and "Search (client h) opts = Decoded sr"
    and "res = search_result index sr (GetInt request ''from'' 0) (GetInt request ''size'' 10)"
  shows "result (handleSearch lib h request) =
       (case Marshal lib (VMap (Some res)) of
          Inl err \<Rightarrow> NewToolResultError ''Failed to marshal result to JSON''
        | Inr jsonBytes \<Rightarrow> NewToolResultText jsonBytes) \<and>
     (''aggregations'' \<in> dom (map_of res)) = (1 \<le> len_map (Aggregations sr)) \<and>
     map_of res ''aggregations'' =
       (if 1 \<le> len_map (Aggregations sr) then Some (VMap (Aggregations sr)) else None)"
proof (intro conjI)
  show "result (handleSearch lib h request) =
       (case Marshal lib (VMap (Some res)) of
          Inl err \<Rightarrow> NewToolResultError ''Failed to marshal result to JSON''
        | Inr jsonBytes \<Rightarrow> NewToolResultText jsonBytes)"
    unfolding assms(4) by (rule handleSearch_decoded [OF assms(1-3)])
  show "(''aggregations'' \<in> dom (map_of res)) = (1 \<le> len_map (Aggregations sr))"
    unfolding assms(4) dom_def mem_Collect_eq search_result_aggregations by simp
  show "map_of res ''aggregations'' =
       (if 1 \<le> len_map (Aggregations sr) then Some (VMap (Aggregations sr)) else None)"
    unfolding assms(4) by (rule search_result_aggregations)
qed

text \<open>The sample reply has one aggregation; with an empty map in its place the key is gone.\<close>

theorem C5_aggregations_iff_present_witness:
  "result (handleSearch sample_lib sample_handler
        (request_with [(''index'', StringArg ''logs-a'')])) = NewToolResultText ''(json)'' \<and>
   map_of (search_result ''logs-a'' sample_search_response 0 10) ''aggregations'' =
        Some (VMap (Some [(''by_level'', VMap (Some [(''buckets'', VSlice (Some []))]))])) \<and>
   result (handleSearch sample_lib
        \<lparr>client = sample_client
           \<lparr>Search := \<lambda>opts. Decoded (sample_search_response\<lparr>Aggregations := Some []\<rparr>)\<rparr>\<rparr>
        (request_with [(''index'', StringArg ''logs-a'')])) = NewToolResultText ''(json)'' \<and>
   ''aggregations'' \<notin>
      dom (map_of (search_result ''logs-a'' (sample_search_response\<lparr>Aggregations := Some []\<rparr>) 0 10))"
proof -
  let ?r = "request_with [(''index'', StringArg ''logs-a'')]"
  let ?opts = "[Search_WithIndex ''logs-a'', Search_WithBody ''(json)'',
        Search_WithTrackTotalHits True, Search_WithPretty]"
  let ?sr = "sample_search_response\<lparr>Aggregations := Some []\<rparr>"
  let ?h = "\<lparr>client = sample_client\<lparr>Search := \<lambda>opts. Decoded ?sr\<rparr>\<rparr>"
  have m: "\<And>v. Marshal sample_lib v = Inr ''(json)''"
    by (simp add: Marshal_def sample_lib_def)
  have a: "RequireString ?r ''index'' = Inr ''logs-a''"
    by (simp add: request_with_def)
  have b1: "calls (handleSearch sample_lib sample_handler ?r) = [Search_call ?opts]"
    by (simp add: sample_defs search_defs word_sless_alt Let_def)
  have b2: "calls (handleSearch sample_lib ?h ?r) = [Search_call ?opts]"
    by (simp add: sample_defs search_defs word_sless_alt Let_def)
  have c1: "Search (client sample_handler) ?opts = Decoded sample_search_response"
    by (simp add: sample_handler_def sample_client_def)
  have c2: "Search (client ?h) ?opts = Decoded ?sr"
    by simp
  have d1: "search_result ''logs-a'' sample_search_response 0 10 =
      search_result ''logs-a'' sample_search_response (GetInt ?r ''from'' 0) (GetInt ?r ''size'' 10)"
    and d2: "search_result ''logs-a'' ?sr 0 10 =
      search_result ''logs-a'' ?sr (GetInt ?r ''from'' 0) (GetInt ?r ''size'' 10)"
    by (simp_all add: request_with_def)
  have l1: "1 \<le> len_map (Some [(''by_level'', VMap (Some [(''buckets'', VSlice (Some []))]))])"
    "Aggregations sample_search_response =
       Some [(''by_level'', VMap (Some [(''buckets'', VSlice (Some []))]))]"
    by (simp_all add: sample_search_response_def len_map_def)
  have l2: "\<not> 1 \<le> len_map (Aggregations ?sr)"
    by (simp add: len_map_def)
  from C5_aggregations_iff_present [OF a b1 c1 d1] C5_aggregations_iff_present [OF a b2 c2 d2]
  show ?thesis
    by (simp only: m l1 l2 sum.case if_True if_False simp_thms)
qed

text \<open>
  Claim C6. For a decoded reply of the backend, the result's \<^verbatim>\<open>hits\<close> are the reply's hits,
  one for one and in the same order; \<^verbatim>\<open>max_score\<close> is the reply's pointer, which encodes as
  \<^verbatim>\<open>null\<close> exactly when the reply has no score; and \<^verbatim>\<open>from\<close> and \<^verbatim>\<open>size\<close> are the values
  that passed the range checks.
\<close>

theorem C6_hits_score_paging_passed_through:
  assumes "RequireString request ''index'' = Inr index"
    and "calls (handleSearch lib h request) = [Search_call opts]"
    and "Search (client h) opts = Decoded sr"
    and "res = search_result index sr (GetInt request ''from'' 0) (GetInt request ''size'' 10)"
  shows "result (handleSearch lib h request) =
       (case Marshal lib (VMap (Some res)) of
          Inl err \<Rightarrow> NewToolResultError ''Failed to marshal result to JSON''
        | Inr jsonBytes \<Rightarrow> NewToolResultText jsonBytes) \<and>
     map_of res ''hits'' = Some (VSlice (map_option (map VMap) (HitsHits (Hits sr)))) \<and>
     map_of res ''max_score'' = Some (VFloatPtr (MaxScore (Hits sr))) \<and>
     (encode (VFloatPtr (MaxScore (Hits sr))) = JNull) = (MaxScore (Hits sr) = None) \<and>
     map_of res ''from'' = Some (VInt (GetInt request ''from'' 0)) \<and>
     map_of res ''size'' = Some (VInt (GetInt request ''size'' 10)) \<and>
     validate_paging (GetInt request ''size'' 10) (GetInt request ''from'' 0) = None"
proof (intro conjI)
  show "result (handleSearch lib h request) =
       (case Marshal lib (VMap (Some res)) of
          Inl err \<Rightarrow> NewToolResultError ''Failed to marshal result to JSON''
        | Inr jsonBytes \<Rightarrow> NewToolResultText jsonBytes)"
    unfolding assms(4) by (rule handleSearch_decoded [OF assms(1-3)])
  show "map_of res ''hits'' = Some (VSlice (map_option (map VMap) (HitsHits (Hits sr))))"
    unfolding assms(4) by (rule search_result_passed)
  show "map_of res ''max_score'' = Some (VFloatPtr (MaxScore (Hits sr)))"
    unfolding assms(4) by (rule search_result_passed)
  show "(encode (VFloatPtr (MaxScore (Hits sr))) = JNull) = (MaxScore (Hits sr) = None)"
    by (cases "MaxScore (Hits sr)") simp_all
  show "map_of res ''from'' = Some (VInt (GetInt request ''from'' 0))"
    unfolding assms(4) by (rule search_result_passed)
  show "map_of res ''size'' = Some (VInt (GetInt request ''size'' 10))"
    unfolding assms(4) by (rule search_result_passed)
  from handleSearch_calls [of lib h request] assms(2)
  show "validate_paging (GetInt request ''size'' 10) (GetInt request ''from'' 0) = None"
    by (elim disjE exE conjE) simp_all
qed

text \<open>
  The sample reply lists \<^verbatim>\<open>b\<close> before \<^verbatim>\<open>a\<close> and has no score; the request asks for five
  hits from the twentieth on.
\<close>

theorem C6_hits_score_paging_passed_through_witness:
  "result (handleSearch sample_lib sample_handler
      (request_with [(''index'', StringArg ''logs-a''), (''from'', IntArg 20),
         (''size'', IntArg 5)])) = NewToolResultText ''(json)'' \<and>
   map_of (search_result ''logs-a'' sample_search_response 20 5) ''hits'' =
     Some (VSlice (Some [VMap (Some [(''_id'', VString ''b'')]),
                         VMap (Some [(''_id'', VString ''a'')])])) \<and>
   map_of (search_result ''logs-a'' sample_search_response 20 5) ''max_score'' =
     Some (VFloatPtr None) \<and>
   encode (VFloatPtr None) = JNull \<and>
   map_of (search_result ''logs-a'' sample_search_response 20 5) ''from'' = Some (VInt 20) \<and>
   map_of (search_result ''logs-a'' sample_search_response 20 5) ''size'' = Some (VInt 5) \<and>
   validate_paging 5 20 = None"
proof -
  let ?r = "request_with [(''index'', StringArg ''logs-a''), (''from'', IntArg 20),
         (''size'', IntArg 5)]"
  let ?opts = "[Search_WithIndex ''logs-a'', Search_WithBody ''(json)'',
        Search_WithTrackTotalHits True, Search_WithPretty]"
  have m: "\<And>v. Marshal sample_lib v = Inr ''(json)''"
    by (simp add: Marshal_def sample_lib_def)
  have a: "RequireString ?r ''index'' = Inr ''logs-a''"
    by (simp add: request_with_def)
  have b: "calls (handleSearch sample_lib sample_handler ?r) = [Search_call ?opts]"
    by (simp add: sample_defs search_defs word_sless_alt Let_def)
  have c: "Search (client sample_handler) ?opts = Decoded sample_search_response"
    by (simp add: sample_handler_def sample_client_def)
  have g: "GetInt ?r ''from'' 0 = 20" "GetInt ?r ''size'' 10 = 5"
    by (simp_all add: request_with_def)
  have d: "search_result ''logs-a'' sample_search_response 20 5 =
      search_result ''logs-a'' sample_search_response (GetInt ?r ''from'' 0) (GetInt ?r ''size'' 10)"
    by (simp only: g)
  have s: "MaxScore (Hits sample_search_response) = None"
    "HitsHits (Hits sample_search_response) =
       Some [Some [(''_id'', VString ''b'')], Some [(''_id'', VString ''a'')]]"
    by (simp_all add: sample_search_response_def)
  from C6_hits_score_paging_passed_through [OF a b c d]
  show ?thesis
    by (simp add: m s g)
qed

section \<open>The result of a listing\<close>

lemma append_slice_eq: "append_slice s x = Some (elems s @ [x])"
  by (cases s) (simp_all add: append_slice_def elems_def)

lemma elems_Some: "elems (Some xs) = xs"
  by (simp add: elems_def)

text \<open>The loop appends one entry for each index of the reply, in the reply's order.\<close>

lemma foldl_append_slice:
  "foldl (\<lambda>res x. append_slice res (f x)) acc xs =
     (if xs = [] then acc else Some (elems acc @ map f xs))"
proof (induction xs arbitrary: acc)
  case Nil
  show ?case by simp
next
  case (Cons x xs)
  have "foldl (\<lambda>res x. append_slice res (f x)) acc (x # xs) =
        foldl (\<lambda>res x. append_slice res (f x)) (append_slice acc (f x)) xs"
    by simp
  also have "\<dots> = (if xs = [] then append_slice acc (f x)
                    else Some (elems (append_slice acc (f x)) @ map f xs))"
    by (rule Cons.IH)
  also have "\<dots> = Some (elems acc @ map f (x # xs))"
    by (simp add: append_slice_eq elems_Some)
  finally show ?case by simp
qed

lemma convert_indices_eq:
  "convert_indices indices =
     (if elems indices = [] then None else Some (map index_entry (elems indices)))"
  by (simp add: convert_indices_def foldl_append_slice elems_def)

lemma elems_convert_indices: "elems (convert_indices indices) = map index_entry (elems indices)"
  by (simp add: convert_indices_eq elems_def)

lemma handleListIndices_decoded:
  assumes "Cat_Indices (client h) (cat_indices_options (GetString request ''pattern'' ''*''))
             = Decoded indices"
  shows "handleListIndices lib h request =
     \<lparr>result =
        (case Marshal lib (VMap (Some
           (list_response (GetString request ''pattern'' ''*'') (convert_indices indices)))) of
           Inl err \<Rightarrow> NewToolResultError ''Failed to marshal result to JSON''
         | Inr jsonBytes \<Rightarrow> NewToolResultText jsonBytes),
      calls = [Cat_Indices_call (cat_indices_options (GetString request ''pattern'' ''*''))]\<rparr>"
  using assms by (simp add: handleListIndices_def Let_def)

lemma elems_convert_indices_fields:
  "elems (convert_indices indices) =
     map (\<lambda>idx. VMap (Some
       [(''name'', VString (Name idx)),
        (''health'', VString (Health idx)),
        (''status'', VString (Status idx)),
        (''uuid'', VString (UUID idx)),
        (''docs_count'', VString (DocsCount idx)),
        (''docs_deleted'', VString (DocsDeleted idx)),
        (''store_size'', VString (StoreSize idx)),
        (''primary_size'', VString (PrimarySize idx)),
        (''primary_count'', VString (PrimaryCount idx)),
        (''replica_count'', VString (ReplicaCount idx)),
        (''creation_date'', VString (CreationDate idx)),
        (''creation_time'', VString (CreationTime idx))])) (elems indices)"
  unfolding elems_convert_indices by (simp add: index_entry_def)

text \<open>
  Claim C7. For every decoded reply of the backend to a listing, the result that is
  marshalled has under \<^verbatim>\<open>indices\<close> one entry for each index of the reply, in the reply's
  order, each holding the twelve fields of that index under their names; under
  \<^verbatim>\<open>total_indices\<close> the number of these entries; and under \<^verbatim>\<open>pattern\<close> the pattern of the
  request, \<^verbatim>\<open>*\<close> when none was given; the backend is asked with that same pattern. Against
  the simulated backend that holds \<^verbatim>\<open>logs-a\<close>, \<^verbatim>\<open>logs-b\<close> and \<^verbatim>\<open>metrics-a\<close>, the listing for
  \<^verbatim>\<open>logs-*\<close> has exactly the two entries named \<^verbatim>\<open>logs-a\<close> and \<^verbatim>\<open>logs-b\<close>, written out below,
  and \<^verbatim>\<open>total_indices = 2\<close>. (Which indices match a pattern is decided by the backend, not
  by the handler.)
\<close>

theorem C7_total_is_number_of_entries:
  "(Cat_Indices (client h) (cat_indices_options (GetString request ''pattern'' ''*''))
      = Decoded indices \<and>
    res = list_response (GetString request ''pattern'' ''*'') (convert_indices indices) \<longrightarrow>
      handleListIndices lib h request =
        \<lparr>result =
           (case Marshal lib (VMap (Some res)) of
              Inl err \<Rightarrow> NewToolResultError ''Failed to marshal result to JSON''
            | Inr jsonBytes \<Rightarrow> NewToolResultText jsonBytes),
         calls = [Cat_Indices_call (cat_indices_options (GetString request ''pattern'' ''*''))]\<rparr> \<and>
      map_of res ''indices'' = Some (VSlice (convert_indices indices)) \<and>
      elems (convert_indices indices) =
        map (\<lambda>idx. VMap (Some
          [(''name'', VString (Name idx)),
           (''health'', VString (Health idx)),
           (''status'', VString (Status idx)),
           (''uuid'', VString (UUID idx)),
           (''docs_count'', VString (DocsCount idx)),
           (''docs_deleted'', VString (DocsDeleted idx)),
           (''store_size'', VString (StoreSize idx)),
           (''primary_size'', VString (PrimarySize idx)),
           (''primary_count'', VString (PrimaryCount idx)),
           (''replica_count'', VString (ReplicaCount idx)),
           (''creation_date'', VString (CreationDate idx)),
           (''creation_time'', VString (CreationTime idx))])) (elems indices) \<and>
      map_of res ''total_indices'' =
        Some (VInt (of_nat (length (elems (convert_indices indices))))) \<and>
      length (elems (convert_indices indices)) = length (elems indices) \<and>
      map_of res ''pattern'' = Some (VString (GetString request ''pattern'' ''*''))) \<and>
   handleListIndices lib' sample_handler (request_with [(''pattern'', StringArg ''logs-*'')]) =
     \<lparr>result =
        (case Marshal lib' (VMap (Some
           [(''total_indices'', VInt 2),
            (''pattern'', VString ''logs-*''),
            (''indices'', VSlice (Some
               [VMap (Some
                  [(''name'', VString ''logs-a''), (''health'', VString ''green''),
                   (''status'', VString ''open''), (''uuid'', VString ''''),
                   (''docs_count'', VString ''0''), (''docs_deleted'', VString ''0''),
                   (''store_size'', VString ''225b''), (''primary_size'', VString ''225b''),
                   (''primary_count'', VString ''1''), (''replica_count'', VString ''0''),
                   (''creation_date'', VString ''''), (''creation_time'', VString '''')]),
                VMap (Some
                  [(''name'', VString ''logs-b''), (''health'', VString ''green''),
                   (''status'', VString ''open''), (''uuid'', VString ''''),
                   (''docs_count'', VString ''0''), (''docs_deleted'', VString ''0''),
                   (''store_size'', VString ''225b''), (''primary_size'', VString ''225b''),
                   (''primary_count'', VString ''1''), (''replica_count'', VString ''0''),
                   (''creation_date'', VString ''''), (''creation_time'', VString '''')])]))])) of
           Inl err \<Rightarrow> NewToolResultError ''Failed to marshal result to JSON''
         | Inr jsonBytes \<Rightarrow> NewToolResultText jsonBytes),
      calls = [Cat_Indices_call
         [Cat_WithIndex ''logs-*'', Cat_WithFormat ''json'',
          Cat_WithH ''index,health,status,uuid,docs.count,docs.deleted,store.size,pri.store.size,pri,rep,creation.date,creation.date.string'']]\<rparr>"
proof (intro conjI impI)
  assume a: "Cat_Indices (client h) (cat_indices_options (GetString request ''pattern'' ''*''))
      = Decoded indices \<and>
    res = list_response (GetString request ''pattern'' ''*'') (convert_indices indices)"
  then have r: "res = list_response (GetString request ''pattern'' ''*'') (convert_indices indices)"
    by (rule conjunct2)
  from a show "handleListIndices lib h request =
        \<lparr>result =
           (case Marshal lib (VMap (Some res)) of
              Inl err \<Rightarrow> NewToolResultError ''Failed to marshal result to JSON''
            | Inr jsonBytes \<Rightarrow> NewToolResultText jsonBytes),
         calls = [Cat_Indices_call (cat_indices_options (GetString request ''pattern'' ''*''))]\<rparr>"
    by (simp add: handleListIndices_decoded)
  show "map_of res ''indices'' = Some (VSlice (convert_indices indices))"
    by (simp add: r list_response_def)
  show "elems (convert_indices indices) =
        map (\<lambda>idx. VMap (Some
          [(''name'', VString (Name idx)),
           (''health'', VString (Health idx)),
           (''status'', VString (Status idx)),
           (''uuid'', VString (UUID idx)),
           (''docs_count'', VString (DocsCount idx)),
           (''docs_deleted'', VString (DocsDeleted idx)),
           (''store_size'', VString (StoreSize idx)),
           (''primary_size'', VString (PrimarySize idx)),
           (''primary_count'', VString (PrimaryCount idx)),
           (''replica_count'', VString (ReplicaCount idx)),
           (''creation_date'', VString (CreationDate idx)),
           (''creation_time'', VString (CreationTime idx))])) (elems indices)"
    by (rule elems_convert_indices_fields)
  show "map_of res ''total_indices'' =
        Some (VInt (of_nat (length (elems (convert_indices indices)))))"
    by (simp add: r list_response_def len_slice_def)
  show "length (elems (convert_indices indices)) = length (elems indices)"
    by (simp add: elems_convert_indices)
  show "map_of res ''pattern'' = Some (VString (GetString request ''pattern'' ''*''))"
    by (simp add: r list_response_def)
next
  let ?r = "request_with [(''pattern'', StringArg ''logs-*'')]"
  have p: "GetString ?r ''pattern'' ''*'' = ''logs-*''"
    by (simp add: request_with_def)
  have c: "Cat_Indices (client sample_handler) (cat_indices_options ''logs-*'') =
      Decoded (Some [index_named ''logs-a'', index_named ''logs-b''])"
    by (simp add: sample_handler_def sample_client_def simulated_cat_indices_def
          cat_indices_options_def)
  have v: "convert_indices (Some [index_named ''logs-a'', index_named ''logs-b'']) =
      Some [index_entry (index_named ''logs-a''), index_entry (index_named ''logs-b'')]"
    by (simp add: convert_indices_eq elems_def)
  have e: "index_entry (index_named ''logs-a'') = VMap (Some
                  [(''name'', VString ''logs-a''), (''health'', VString ''green''),
                   (''status'', VString ''open''), (''uuid'', VString ''''),
                   (''docs_count'', VString ''0''), (''docs_deleted'', VString ''0''),
                   (''store_size'', VString ''225b''), (''primary_size'', VString ''225b''),
                   (''primary_count'', VString ''1''), (''replica_count'', VString ''0''),
                   (''creation_date'', VString ''''), (''creation_time'', VString '''')])"
    "index_entry (index_named ''logs-b'') = VMap (Some
                  [(''name'', VString ''logs-b''), (''health'', VString ''green''),
                   (''status'', VString ''open''), (''uuid'', VString ''''),
                   (''docs_count'', VString ''0''), (''docs_deleted'', VString ''0''),
                   (''store_size'', VString ''225b''), (''primary_size'', VString ''225b''),
                   (''primary_count'', VString ''1''), (''replica_count'', VString ''0''),
                   (''creation_date'', VString ''''), (''creation_time'', VString '''')])"
    by (simp_all add: index_entry_def index_named_def)
  show "handleListIndices lib' sample_handler ?r =
     \<lparr>result =
        (case Marshal lib' (VMap (Some
           [(''total_indices'', VInt 2),
            (''pattern'', VString ''logs-*''),
            (''indices'', VSlice (Some
               [VMap (Some
                  [(''name'', VString ''logs-a''), (''health'', VString ''green''),
                   (''status'', VString ''open''), (''uuid'', VString ''''),
                   (''docs_count'', VString ''0''), (''docs_deleted'', VString ''0''),
                   (''store_size'', VString ''225b''), (''primary_size'', VString ''225b''),
                   (''primary_count'', VString ''1''), (''replica_count'', VString ''0''),
                   (''creation_date'', VString ''''), (''creation_time'', VString '''')]),
                VMap (Some
                  [(''name'', VString ''logs-b''), (''health'', VString ''green''),
                   (''status'', VString ''open''), (''uuid'', VString ''''),
                   (''docs_count'', VString ''0''), (''docs_deleted'', VString ''0''),
                   (''store_size'', VString ''225b''), (''primary_size'', VString ''225b''),
                   (''primary_count'', VString ''1''), (''replica_count'', VString ''0''),
                   (''creation_date'', VString ''''), (''creation_time'', VString '''')])]))])) of
           Inl err \<Rightarrow> NewToolResultError ''Failed to marshal result to JSON''
         | Inr jsonBytes \<Rightarrow> NewToolResultText jsonBytes),
      calls = [Cat_Indices_call
         [Cat_WithIndex ''logs-*'', Cat_WithFormat ''json'',
          Cat_WithH ''index,health,status,uuid,docs.count,docs.deleted,store.size,pri.store.size,pri,rep,creation.date,creation.date.string'']]\<rparr>"
    unfolding handleListIndices_decoded [of sample_handler ?r, unfolded p, OF c] p v e
    by (simp add: cat_indices_options_def list_response_def len_slice_def elems_def)
qed

text \<open>
  A backend that replies with one index whose twelve fields all differ, listed without
  a pattern; and the listing for \<^verbatim>\<open>logs-*\<close> with the sample renderer.
\<close>

theorem C7_total_is_number_of_entries_witness:
  "handleListIndices sample_lib
      \<lparr>client = sample_client\<lparr>Cat_Indices := \<lambda>opts. Decoded (Some
         [\<lparr>Name = ''logs-a'', Health = ''yellow'', Status = ''open'', UUID = ''u-1'',
           DocsCount = ''42'', DocsDeleted = ''7'', StoreSize = ''10kb'', PrimarySize = ''5kb'',
           PrimaryCount = ''3'', ReplicaCount = ''2'', CreationDate = ''1700000000000'',
           CreationTime = ''2023-11-14T22:13:20.000Z''\<rparr>])\<rparr>\<rparr>
      (request_with []) =
     \<lparr>result = NewToolResultText ''(json)'',
      calls = [Cat_Indices_call (cat_indices_options ''*'')]\<rparr> \<and>
   list_response ''*'' (convert_indices (Some
         [\<lparr>Name = ''logs-a'', Health = ''yellow'', Status = ''open'', UUID = ''u-1'',
           DocsCount = ''42'', DocsDeleted = ''7'', StoreSize = ''10kb'', PrimarySize = ''5kb'',
           PrimaryCount = ''3'', ReplicaCount = ''2'', CreationDate = ''1700000000000'',
           CreationTime = ''2023-11-14T22:13:20.000Z''\<rparr>])) =
     [(''total_indices'', VInt 1),
      (''pattern'', VString ''*''),
      (''indices'', VSlice (Some
         [VMap (Some
            [(''name'', VString ''logs-a''), (''health'', VString ''yellow''),
             (''status'', VString ''open''), (''uuid'', VString ''u-1''),
             (''docs_count'', VString ''42''), (''docs_deleted'', VString ''7''),
             (''store_size'', VString ''10kb''), (''primary_size'', VString ''5kb''),
             (''primary_count'', VString ''3''), (''replica_count'', VString ''2''),
             (''creation_date'', VString ''1700000000000''),
             (''creation_time'', VString ''2023-11-14T22:13:20.000Z'')])]))] \<and>
   handleListIndices sample_lib sample_handler (request_with [(''pattern'', StringArg ''logs-*'')]) =
     \<lparr>result = NewToolResultText ''(json)'',
      calls = [Cat_Indices_call (cat_indices_options ''logs-*'')]\<rparr>"
proof -
  let ?one = "Some
         [\<lparr>Name = ''logs-a'', Health = ''yellow'', Status = ''open'', UUID = ''u-1'',
           DocsCount = ''42'', DocsDeleted = ''7'', StoreSize = ''10kb'', PrimarySize = ''5kb'',
           PrimaryCount = ''3'', ReplicaCount = ''2'', CreationDate = ''1700000000000'',
           CreationTime = ''2023-11-14T22:13:20.000Z''\<rparr>]"
  let ?h = "\<lparr>client = sample_client\<lparr>Cat_Indices := \<lambda>opts. Decoded ?one\<rparr>\<rparr>"
  have p: "GetString (request_with []) ''pattern'' ''*'' = ''*''"
    by (simp add: request_with_def)
  have c: "Cat_Indices (client ?h) (cat_indices_options (GetString (request_with []) ''pattern'' ''*''))
      = Decoded ?one \<and>
    list_response ''*'' (convert_indices ?one) =
      list_response (GetString (request_with []) ''pattern'' ''*'') (convert_indices ?one)"
    by (simp add: p)
  have m: "\<And>v. Marshal sample_lib v = Inr ''(json)''"
    by (simp add: Marshal_def sample_lib_def)
  have s: "elems ?one = [\<lparr>Name = ''logs-a'', Health = ''yellow'', Status = ''open'', UUID = ''u-1'',
           DocsCount = ''42'', DocsDeleted = ''7'', StoreSize = ''10kb'', PrimarySize = ''5kb'',
           PrimaryCount = ''3'', ReplicaCount = ''2'', CreationDate = ''1700000000000'',
           CreationTime = ''2023-11-14T22:13:20.000Z''\<rparr>]"
    by (simp add: elems_def)
  from C7_total_is_number_of_entries [where h = ?h and request = "request_with []"
      and indices = ?one and lib = sample_lib and lib' = sample_lib
      and res = "list_response ''*'' (convert_indices ?one)"] c
  show ?thesis
    by (simp add: p m s convert_indices_eq list_response_def len_slice_def elems_def
          index_entry_def cat_indices_options_def)
qed

lemma list_response_encode_nil:
  "encode (VMap (Some (list_response pattern None))) =
     JObject [(''total_indices'', JNumber 0), (''pattern'', JString pattern), (''indices'', JNull)]"
  by (simp add: list_response_def len_slice_def elems_def)

text \<open>
  Claim C10. When the reply to a listing decodes to no index at all, the loop never
  appends: the result's list stays the nil slice, \<^verbatim>\<open>total_indices\<close> is 0, and the JSON
  value that is rendered has \<^verbatim>\<open>null\<close> under \<^verbatim>\<open>indices\<close>, not the empty array.
\<close>

theorem C10_empty_listing_is_nil:
  assumes "Cat_Indices (client h) (cat_indices_options (GetString request ''pattern'' ''*''))
             = Decoded indices"
    and "elems indices = []"
  shows "convert_indices indices = None \<and>
     encode (VSlice (convert_indices indices)) = JNull \<and>
     encode (VSlice (convert_indices indices)) \<noteq> JArray [] \<and>
     handleListIndices lib h request =
       \<lparr>result =
          (case render lib (JObject [(''total_indices'', JNumber 0),
                                     (''pattern'', JString (GetString request ''pattern'' ''*'')),
                                     (''indices'', JNull)]) of
             Inl err \<Rightarrow> NewToolResultError ''Failed to marshal result to JSON''
           | Inr jsonBytes \<Rightarrow> NewToolResultText jsonBytes),
        calls = [Cat_Indices_call (cat_indices_options (GetString request ''pattern'' ''*''))]\<rparr>"
proof -
  from assms(2) have n: "convert_indices indices = None"
    by (simp add: convert_indices_eq)
  show ?thesis
    unfolding handleListIndices_decoded [OF assms(1)] n Marshal_def list_response_encode_nil
    by simp
qed

text \<open>
  No index of the simulated backend matches \<^verbatim>\<open>traces-*\<close>; the renderer of this example
  tells the value with \<^verbatim>\<open>null\<close> from every other.
\<close>

theorem C10_empty_listing_is_nil_witness:
  "Cat_Indices (client sample_handler) (cat_indices_options ''traces-*'') = Decoded (Some []) \<and>
   convert_indices (Some []) = None \<and>
   encode (VSlice (convert_indices (Some []))) = JNull \<and>
   handleListIndices
       \<lparr>Unmarshal_map = sample_unmarshal_map, Unmarshal_any = sample_unmarshal_any,
        render = (\<lambda>j. if j = JObject [(''total_indices'', JNumber 0),
                                       (''pattern'', JString ''traces-*''), (''indices'', JNull)]
                       then Inr ''null listing'' else Inr ''(json)'')\<rparr>
       sample_handler (request_with [(''pattern'', StringArg ''traces-*'')]) =
     \<lparr>result = NewToolResultText ''null listing'',
      calls = [Cat_Indices_call (cat_indices_options ''traces-*'')]\<rparr>"
proof -
  let ?r = "request_with [(''pattern'', StringArg ''traces-*'')]"
  let ?lib = "\<lparr>Unmarshal_map = sample_unmarshal_map, Unmarshal_any = sample_unmarshal_any,
        render = (\<lambda>j. if j = JObject [(''total_indices'', JNumber 0),
                                       (''pattern'', JString ''traces-*''), (''indices'', JNull)]
                       then Inr ''null listing'' else Inr ''(json)'')\<rparr>"
  have p: "GetString ?r ''pattern'' ''*'' = ''traces-*''"
    by (simp add: request_with_def)
  have c: "Cat_Indices (client sample_handler) (cat_indices_options (GetString ?r ''pattern'' ''*''))
      = Decoded (Some [])"
    by (simp add: p sample_handler_def sample_client_def simulated_cat_indices_def
          cat_indices_options_def)
  have e: "elems (Some ([] :: IndexInfo list)) = []"
    by (simp add: elems_def)
  from C10_empty_listing_is_nil [OF c e, of ?lib] c
  show ?thesis
    by (simp add: p)
qed

section \<open>The index argument\<close>

lemma handleSearch_missing_index:
  "RequireString request ''index'' = Inl err \<Longrightarrow>
   handleSearch lib h request =
     \<lparr>result = NewToolResultError ''Missing 'index' parameter'', calls = []\<rparr>"
  by (simp add: handleSearch_def no_call_def)

lemma handleGetMappings_missing_index:
  "RequireString request ''index'' = Inl err \<Longrightarrow>
   handleGetMappings lib h request =
     \<lparr>result = NewToolResultError ''Missing 'index' parameter'', calls = []\<rparr>"
  by (simp add: handleGetMappings_def no_call_def)

text \<open>
  Claim C9, as the code has it. Whatever error the accessor reports for the \<^verbatim>\<open>index\<close>
  argument, the one for an absent argument or the one for an argument that is not a
  string, the search and the retrieval of mappings both return the same error result,
  \<^verbatim>\<open>Missing 'index' parameter\<close>, and do not call the backend. (The accessor's error is handed
  to the logger only.)
\<close>

theorem C9_absent_and_malformed_index_same_error:
  assumes "RequireString request ''index'' = Inl err"
  shows "handleSearch lib h request =
           \<lparr>result = NewToolResultError ''Missing 'index' parameter'', calls = []\<rparr> \<and>
         handleGetMappings lib h request =
           \<lparr>result = NewToolResultError ''Missing 'index' parameter'', calls = []\<rparr>"
  using assms by (simp add: handleSearch_missing_index handleGetMappings_missing_index)

text \<open>A request without \<^verbatim>\<open>index\<close>, and one whose \<^verbatim>\<open>index\<close> is the number 5.\<close>

theorem C9_absent_and_malformed_index_same_error_witness:
  \<open>RequireString (request_with []) ''index'' = Inl ''required argument "index" not found'' \<and>
   RequireString (request_with [(''index'', IntArg 5)]) ''index'' =
     Inl ''argument "index" is not a string'' \<and>
   handleSearch sample_lib sample_handler (request_with []) =
     \<lparr>result = NewToolResultError ''Missing 'index' parameter'', calls = []\<rparr> \<and>
   handleGetMappings sample_lib sample_handler (request_with []) =
     \<lparr>result = NewToolResultError ''Missing 'index' parameter'', calls = []\<rparr> \<and>
   handleSearch sample_lib sample_handler (request_with [(''index'', IntArg 5)]) =
     \<lparr>result = NewToolResultError ''Missing 'index' parameter'', calls = []\<rparr> \<and>
   handleGetMappings sample_lib sample_handler (request_with [(''index'', IntArg 5)]) =
     \<lparr>result = NewToolResultError ''Missing 'index' parameter'', calls = []\<rparr>\<close>
proof -
  have a: \<open>RequireString (request_with []) ''index'' = Inl ''required argument "index" not found''\<close>
    by (simp add: request_with_def)
  have b: \<open>RequireString (request_with [(''index'', IntArg 5)]) ''index'' =
     Inl ''argument "index" is not a string''\<close>
    by (simp add: request_with_def)
  from C9_absent_and_malformed_index_same_error [OF a, of sample_lib sample_handler]
    C9_absent_and_malformed_index_same_error [OF b, of sample_lib sample_handler] a b
  show ?thesis by simp
qed

text \<open>
  Against claim C9 as it was stated: the accessor tells the two requests apart, the
  results of the two handlers do not.
\<close>

theorem C9_errors_not_distinct:
  "RequireString (request_with []) ''index'' \<noteq>
     RequireString (request_with [(''index'', IntArg 5)]) ''index'' \<and>
   result (handleSearch sample_lib sample_handler (request_with [])) =
     result (handleSearch sample_lib sample_handler (request_with [(''index'', IntArg 5)])) \<and>
   result (handleGetMappings sample_lib sample_handler (request_with [])) =
     result (handleGetMappings sample_lib sample_handler (request_with [(''index'', IntArg 5)]))"
  by (simp add: request_with_def handleSearch_def handleGetMappings_def no_call_def)

section \<open>Authentication and the connection test\<close>

lemma client_config_api_key:
  "APIKey cfg \<noteq> '''' \<Longrightarrow>
   client_config cfg =
     \<lparr>es_Addresses = [URL cfg], es_APIKey = APIKey cfg, es_Username = '''', es_Password = ''''\<rparr>"
  by (simp add: client_config_def)

lemma client_config_basic:
  "APIKey cfg = '''' \<Longrightarrow> Username cfg \<noteq> '''' \<Longrightarrow> Password cfg \<noteq> '''' \<Longrightarrow>
   client_config cfg =
     \<lparr>es_Addresses = [URL cfg], es_APIKey = '''', es_Username = Username cfg,
      es_Password = Password cfg\<rparr>"
  by (simp add: client_config_def)

lemma validateConfig_None_auth:
  "validateConfig config = None \<Longrightarrow>
   APIKey (Elasticsearch config) \<noteq> '''' \<or>
   (Username (Elasticsearch config) \<noteq> '''' \<and> Password (Elasticsearch config) \<noteq> '''')"
  by (auto simp add: validateConfig_def split: if_splits)

lemma loadConfig_Inr:
  "loadConfig env version = Inr cfg \<Longrightarrow> validateConfig cfg = None"
  by (auto simp add: loadConfig_def Let_def split: option.splits)

lemma loadConfig_no_auth:
  assumes "env ''ES_API_KEY'' = ''''"
    and "env ''ES_USERNAME'' = '''' \<or> env ''ES_PASSWORD'' = ''''"
  shows "loadConfig env version =
     Inl ''invalid configuration: either ES_API_KEY or ES_USERNAME+ES_PASSWORD must be provided''"
  using assms
  by (auto simp add: loadConfig_def Let_def validateConfig_def getEnv_def)

lemma newElasticsearchHandler_Inr:
  "newElasticsearchHandler NewClient cfg = Inr handler \<Longrightarrow>
   \<exists>c. NewClient (client_config cfg) = Inr c \<and> Info c = InfoOK \<and> handler = \<lparr>client = c\<rparr>"
  by (auto simp add: newElasticsearchHandler_def split: sum.splits info_reply.splits)

lemma newElasticsearchHandler_liveness:
  "NewClient (client_config cfg) = Inr c \<Longrightarrow> Info c \<noteq> InfoOK \<Longrightarrow>
   \<exists>err. newElasticsearchHandler NewClient cfg = Inl err"
  by (cases "Info c") (simp_all add: newElasticsearchHandler_def)

lemma run_Inr:
  "run env version newLogger NewClient = Inr handler \<Longrightarrow>
   \<exists>cfg. loadConfig env version = Inr cfg \<and>
         newElasticsearchHandler NewClient (Elasticsearch cfg) = Inr handler"
  by (auto simp add: run_def Let_def split: sum.splits if_splits)

text \<open>
  Claim C8. With an API key configured, the client is given the key and neither user
  name nor password, whatever these are; without a key and with both a user name and a
  password, it is given the pair. When the environment has no key and lacks the user
  name or the password, \<^verbatim>\<open>run\<close> fails while loading the configuration, before any client
  is made. When the connection test of a client fails, no handler is returned. And
  whenever \<^verbatim>\<open>run\<close> does return a handler, the configuration had a key or the pair, and the
  handler holds the client that the library made for it and whose connection test passed.
\<close>

theorem C8_one_auth_method_and_liveness:
  "(APIKey cfg \<noteq> '''' \<longrightarrow>
      client_config cfg =
        \<lparr>es_Addresses = [URL cfg], es_APIKey = APIKey cfg, es_Username = '''',
         es_Password = ''''\<rparr>) \<and>
   (APIKey cfg' = '''' \<and> Username cfg' \<noteq> '''' \<and> Password cfg' \<noteq> '''' \<longrightarrow>
      client_config cfg' =
        \<lparr>es_Addresses = [URL cfg'], es_APIKey = '''', es_Username = Username cfg',
         es_Password = Password cfg'\<rparr>) \<and>
   (env ''ES_API_KEY'' = '''' \<and> (env ''ES_USERNAME'' = '''' \<or> env ''ES_PASSWORD'' = '''') \<longrightarrow>
      run env version newLogger NewClient =
        Inl ''failed to load configuration: invalid configuration: either ES_API_KEY or ES_USERNAME+ES_PASSWORD must be provided'') \<and>
   (NewClient' (client_config cfg'') = Inr c \<and> Info c \<noteq> InfoOK \<longrightarrow>
      (\<exists>err. newElasticsearchHandler NewClient' cfg'' = Inl err)) \<and>
   (run env' version' newLogger' NewClient'' = Inr handler \<longrightarrow>
      (\<exists>config c'.
         loadConfig env' version' = Inr config \<and>
         (APIKey (Elasticsearch config) \<noteq> '''' \<or>
          (Username (Elasticsearch config) \<noteq> '''' \<and> Password (Elasticsearch config) \<noteq> '''')) \<and>
         NewClient'' (client_config (Elasticsearch config)) = Inr c' \<and>
         Info c' = InfoOK \<and> handler = \<lparr>client = c'\<rparr>))"
proof (intro conjI impI)
  assume "APIKey cfg \<noteq> ''''"
  then show "client_config cfg =
        \<lparr>es_Addresses = [URL cfg], es_APIKey = APIKey cfg, es_Username = '''',
         es_Password = ''''\<rparr>"
    by (rule client_config_api_key)
next
  assume "APIKey cfg' = '''' \<and> Username cfg' \<noteq> '''' \<and> Password cfg' \<noteq> ''''"
  then show "client_config cfg' =
        \<lparr>es_Addresses = [URL cfg'], es_APIKey = '''', es_Username = Username cfg',
         es_Password = Password cfg'\<rparr>"
    by (simp add: client_config_basic)
next
  assume "env ''ES_API_KEY'' = '''' \<and> (env ''ES_USERNAME'' = '''' \<or> env ''ES_PASSWORD'' = '''')"
  then have "loadConfig env version =
     Inl ''invalid configuration: either ES_API_KEY or ES_USERNAME+ES_PASSWORD must be provided''"
    by (simp add: loadConfig_no_auth)
  then show "run env version newLogger NewClient =
        Inl ''failed to load configuration: invalid configuration: either ES_API_KEY or ES_USERNAME+ES_PASSWORD must be provided''"
    by (simp add: run_def)
next
  assume "NewClient' (client_config cfg'') = Inr c \<and> Info c \<noteq> InfoOK"
  then show "\<exists>err. newElasticsearchHandler NewClient' cfg'' = Inl err"
    by (simp add: newElasticsearchHandler_liveness)
next
  assume "run env' version' newLogger' NewClient'' = Inr handler"
  from run_Inr [OF this] obtain config where
    l: "loadConfig env' version' = Inr config" and
    n: "newElasticsearchHandler NewClient'' (Elasticsearch config) = Inr handler"
    by blast
  from newElasticsearchHandler_Inr [OF n] obtain c' where
    c: "NewClient'' (client_config (Elasticsearch config)) = Inr c'" "Info c' = InfoOK"
       "handler = \<lparr>client = c'\<rparr>"
    by blast
  from validateConfig_None_auth [OF loadConfig_Inr [OF l]] l c
  show "\<exists>config c'.
         loadConfig env' version' = Inr config \<and>
         (APIKey (Elasticsearch config) \<noteq> '''' \<or>
          (Username (Elasticsearch config) \<noteq> '''' \<and> Password (Elasticsearch config) \<noteq> '''')) \<and>
         NewClient'' (client_config (Elasticsearch config)) = Inr c' \<and>
         Info c' = InfoOK \<and> handler = \<lparr>client = c'\<rparr>"
    by blast
qed

text \<open>
  A configuration with a key and the pair, one with the pair alone, an environment with
  a user name and nothing else, a backend that refuses the connection, and a start that
  succeeds.
\<close>

theorem C8_one_auth_method_and_liveness_witness:
  "client_config \<lparr>URL = ''http://localhost:9200'', APIKey = ''key-1'', Username = ''elastic'',
       Password = ''secret''\<rparr> =
     \<lparr>es_Addresses = [''http://localhost:9200''], es_APIKey = ''key-1'', es_Username = '''',
      es_Password = ''''\<rparr> \<and>
   client_config \<lparr>URL = ''http://localhost:9200'', APIKey = '''', Username = ''elastic'',
       Password = ''secret''\<rparr> =
     \<lparr>es_Addresses = [''http://localhost:9200''], es_APIKey = '''', es_Username = ''elastic'',
      es_Password = ''secret''\<rparr> \<and>
   run (\<lambda>k. if k = ''ES_USERNAME'' then ''elastic'' else '''') ''dev'' (\<lambda>l. Inr ())
       (\<lambda>esCfg. Inr sample_client) =
     Inl ''failed to load configuration: invalid configuration: either ES_API_KEY or ES_USERNAME+ES_PASSWORD must be provided'' \<and>
   (\<exists>err. newElasticsearchHandler
       (\<lambda>esCfg. Inr (sample_client\<lparr>Info := InfoFailed ''connection refused''\<rparr>))
       \<lparr>URL = ''http://localhost:9200'', APIKey = ''key-1'', Username = ''elastic'',
        Password = ''secret''\<rparr> = Inl err) \<and>
   run (\<lambda>k. if k = ''ES_API_KEY'' then ''key-1'' else if k = ''ES_USERNAME'' then ''elastic''
            else if k = ''ES_PASSWORD'' then ''secret'' else '''')
       ''dev'' (\<lambda>l. Inr ()) (\<lambda>esCfg. Inr sample_client) = Inr sample_handler \<and>
   (\<exists>config c'.
      loadConfig (\<lambda>k. if k = ''ES_API_KEY'' then ''key-1'' else if k = ''ES_USERNAME'' then ''elastic''
            else if k = ''ES_PASSWORD'' then ''secret'' else '''') ''dev'' = Inr config \<and>
      Info c' = InfoOK \<and> sample_handler = \<lparr>client = c'\<rparr>)"
proof -
  let ?both = "\<lparr>URL = ''http://localhost:9200'', APIKey = ''key-1'', Username = ''elastic'',
       Password = ''secret''\<rparr>"
  let ?basic = "\<lparr>URL = ''http://localhost:9200'', APIKey = '''', Username = ''elastic'',
       Password = ''secret''\<rparr>"
  let ?noauth = "\<lambda>k. if k = ''ES_USERNAME'' then ''elastic'' else ''''"
  let ?full = "\<lambda>k. if k = ''ES_API_KEY'' then ''key-1'' else if k = ''ES_USERNAME'' then ''elastic''
            else if k = ''ES_PASSWORD'' then ''secret'' else ''''"
  let ?down = "sample_client\<lparr>Info := InfoFailed ''connection refused''\<rparr>"
  have h1: "APIKey ?both \<noteq> ''''" by simp
  have h2: "APIKey ?basic = '''' \<and> Username ?basic \<noteq> '''' \<and> Password ?basic \<noteq> ''''" by simp
  have h3: "?noauth ''ES_API_KEY'' = '''' \<and> (?noauth ''ES_USERNAME'' = '''' \<or> ?noauth ''ES_PASSWORD'' = '''')"
    by simp
  have h4: "(\<lambda>esCfg. Inr ?down) (client_config ?both) = Inr ?down \<and> Info ?down \<noteq> InfoOK"
    by simp
  have h5: "run ?full ''dev'' (\<lambda>l. Inr ()) (\<lambda>esCfg. Inr sample_client) = Inr sample_handler"
    by (simp add: run_def loadConfig_def validateConfig_def validLogLevels_def getEnv_def Let_def
          newElasticsearchHandler_def sample_client_def sample_handler_def)
  from C8_one_auth_method_and_liveness [where cfg = ?both and cfg' = ?basic and env = ?noauth
      and version = "''dev''" and newLogger = "\<lambda>l. Inr ()" and NewClient = "\<lambda>esCfg. Inr sample_client"
      and NewClient' = "\<lambda>esCfg. Inr ?down" and cfg'' = ?both and c = ?down
      and env' = ?full and version' = "''dev''" and newLogger' = "\<lambda>l. Inr ()"
      and NewClient'' = "\<lambda>esCfg. Inr sample_client" and handler = sample_handler]
    h1 h2 h3 h4 h5
  show ?thesis
    by (elim conjE impE) (simp_all, blast)
qed

end
